theory Spec2Isabelle
  imports Complex_Main "HOL-Library.AList" "HOL-Library.Multiset"
begin

section \<open>JavaScript values used by the services\<close>

text \<open>
  A numeric field read from a JSON payload, a database row or an in-memory record is a
  number, \<open>null\<close> or \<open>undefined\<close>. Numbers are modelled as reals (IEEE rounding, NaN and
  the infinities are outside the model). A value is truthy when it is a number other
  than zero.
\<close>

datatype jsnum = JUndefined | JNull | JNum real

fun truthy :: "jsnum \<Rightarrow> bool" where
  "truthy (JNum x) = (x \<noteq> 0)"
| "truthy JUndefined = False"
| "truthy JNull = False"

section \<open>Market processor: \<open>DataProcessor.detectAnomalies\<close>\<close>

record coin =
  coin_id :: string
  coin_name :: string
  coin_symbol :: string
  current_price :: jsnum
  total_volume :: jsnum
  market_cap :: jsnum

record prev_values =
  pv_price :: jsnum
  pv_volume :: jsnum
  pv_marketCap :: jsnum
  pv_lastUpdated :: nat

record data_processor =
  dp_priceThreshold :: real
  dp_volumeThreshold :: real
  previousValues :: "string \<rightharpoonup> prev_values"

text \<open>
  An anomaly as pushed by \<open>detectAnomalies\<close>. The \<open>description\<close> text (a formatted
  message) is not part of the model.
\<close>

record anomaly =
  an_crypto_id :: string
  an_anomaly_type :: string
  an_old_value :: real
  an_new_value :: real
  an_percentage_change :: real
  an_timestamp :: nat

datatype arith_error = DivisionByZero

text \<open>
  JavaScript's \<open>/\<close> does not raise on a zero divisor; the model makes a zero divisor a
  distinguished outcome so that "the division is never by zero" can be stated.
\<close>

definition checked_div :: "real \<Rightarrow> real \<Rightarrow> arith_error + real" where
  "checked_div a b = (if b = 0 then Inl DivisionByZero else Inr (a / b))"

text \<open>
  The block \<open>if (prevValues.price && coin.current_price) { ... }\<close>, and the same block
  for the volume: \<open>prev\<close> and \<open>cur\<close> are the stored and the incoming value, \<open>kind\<close> is
  \<open>'price'\<close> or \<open>'volume'\<close>.
\<close>

definition checkChange ::
  "string \<Rightarrow> real \<Rightarrow> string \<Rightarrow> nat \<Rightarrow> jsnum \<Rightarrow> jsnum \<Rightarrow> arith_error + anomaly list" where
  "checkChange kind threshold cid now prev cur =
     (if truthy prev \<and> truthy cur then
        (case (prev, cur) of
           (JNum p, JNum c) \<Rightarrow>
             (case checked_div (c - p) p of
                Inl e \<Rightarrow> Inl e
              | Inr q \<Rightarrow>
                  (let change = q * 100 in
                   if \<bar>change\<bar> \<ge> threshold then
                     Inr [\<lparr>an_crypto_id = cid, an_anomaly_type = kind, an_old_value = p,
                           an_new_value = c, an_percentage_change = change,
                           an_timestamp = now\<rparr>]
                   else Inr []))
         | _ \<Rightarrow> Inr [])
      else Inr [])"

definition detectAnomalies :: "data_processor \<Rightarrow> nat \<Rightarrow> coin \<Rightarrow> arith_error + anomaly list" where
  "detectAnomalies dp now c =
     (case previousValues dp (coin_id c) of
        None \<Rightarrow> Inr []
      | Some prevValues \<Rightarrow>
          (case checkChange ''price'' (dp_priceThreshold dp) (coin_id c) now
                  (pv_price prevValues) (current_price c) of
             Inl e \<Rightarrow> Inl e
           | Inr priceAnomalies \<Rightarrow>
               (case checkChange ''volume'' (dp_volumeThreshold dp) (coin_id c) now
                       (pv_volume prevValues) (total_volume c) of
                  Inl e \<Rightarrow> Inl e
                | Inr volumeAnomalies \<Rightarrow> Inr (priceAnomalies @ volumeAnomalies))))"

definition updatePreviousValues :: "data_processor \<Rightarrow> nat \<Rightarrow> coin \<Rightarrow> data_processor" where
  "updatePreviousValues dp now c =
     dp\<lparr>previousValues := (previousValues dp)(coin_id c \<mapsto>
          \<lparr>pv_price = current_price c, pv_volume = total_volume c,
           pv_marketCap = market_cap c, pv_lastUpdated = now\<rparr>)\<rparr>"

text \<open>The stored previous value of a kind is usable: present and truthy.\<close>

definition prev_usable :: "data_processor \<Rightarrow> coin \<Rightarrow> (prev_values \<Rightarrow> jsnum) \<Rightarrow> bool" where
  "prev_usable dp c field =
     (case previousValues dp (coin_id c) of None \<Rightarrow> False | Some pv \<Rightarrow> truthy (field pv))"

text \<open>
  Example state: the previous snapshot of bitcoin had price 100 and volume 0; the
  thresholds are the configured 5 and 20 percent. The incoming snapshot has price 106.
\<close>

definition example_processor :: data_processor where
  "example_processor =
     \<lparr>dp_priceThreshold = 5, dp_volumeThreshold = 20,
      previousValues = [''bitcoin'' \<mapsto>
        \<lparr>pv_price = JNum 100, pv_volume = JNum 0, pv_marketCap = JNull,
         pv_lastUpdated = 0\<rparr>]\<rparr>"

definition example_coin :: coin where
  "example_coin =
     \<lparr>coin_id = ''bitcoin'', coin_name = ''Bitcoin'', coin_symbol = ''btc'',
      current_price = JNum 106, total_volume = JNum 5000, market_cap = JNull\<rparr>"

section \<open>Indicator engine: \<open>TechnicalAnalysisService\<close>\<close>

text \<open>
  JavaScript's relational operators on the numeric fields: \<open>undefined\<close> converts to NaN,
  which makes every comparison false; \<open>null\<close> converts to 0.
\<close>

fun toNumber :: "jsnum \<Rightarrow> real option" where
  "toNumber (JNum x) = Some x"
| "toNumber JNull = Some 0"
| "toNumber JUndefined = None"

definition js_gt :: "jsnum \<Rightarrow> jsnum \<Rightarrow> bool" where
  "js_gt a b = (case (toNumber a, toNumber b) of (Some x, Some y) \<Rightarrow> x > y | _ \<Rightarrow> False)"

definition js_lt :: "jsnum \<Rightarrow> jsnum \<Rightarrow> bool" where
  "js_lt a b = (case (toNumber a, toNumber b) of (Some x, Some y) \<Rightarrow> x < y | _ \<Rightarrow> False)"

definition js_ge :: "jsnum \<Rightarrow> jsnum \<Rightarrow> bool" where
  "js_ge a b = (case (toNumber a, toNumber b) of (Some x, Some y) \<Rightarrow> x \<ge> y | _ \<Rightarrow> False)"

definition js_le :: "jsnum \<Rightarrow> jsnum \<Rightarrow> bool" where
  "js_le a b = (case (toNumber a, toNumber b) of (Some x, Some y) \<Rightarrow> x \<le> y | _ \<Rightarrow> False)"

record rsi_settings =
  rsi_period :: nat
  rsi_overbought :: real
  rsi_oversold :: real

record macd_settings =
  macd_fastPeriod :: nat
  macd_slowPeriod :: nat
  macd_signalPeriod :: nat

record ta_settings =
  smaPeriods :: "nat list"
  rsiSettings :: rsi_settings
  macdSettings :: macd_settings

text \<open>One element of the series that the indicator package returns for MACD.\<close>

record macd_point =
  mp_MACD :: jsnum
  mp_signal :: jsnum
  mp_histogram :: jsnum

text \<open>
  The \<open>technicalindicators\<close> package is not part of the repository: its three
  \<open>calculate\<close> functions are parameters of the model.
\<close>

record ti_library =
  lib_SMA :: "nat \<Rightarrow> jsnum list \<Rightarrow> jsnum list"
  lib_RSI :: "nat \<Rightarrow> jsnum list \<Rightarrow> jsnum list"
  lib_MACD :: "nat \<Rightarrow> nat \<Rightarrow> nat \<Rightarrow> jsnum list \<Rightarrow> macd_point list"

record sma_result =
  sr_period :: nat
  sr_values :: "jsnum list"
  sr_current :: jsnum

record rsi_result =
  rr_period :: nat
  rr_values :: "jsnum list"
  rr_current :: jsnum
  rr_overbought :: real
  rr_oversold :: real
  rr_condition :: string

record macd_result =
  mr_fastPeriod :: nat
  mr_slowPeriod :: nat
  mr_signalPeriod :: nat
  mr_values :: "macd_point list"
  mr_current :: "macd_point option"
  mr_signal :: string

text \<open>
  \<open>calculateSMA\<close>: the result object has one property \<open>period_N\<close> per configured
  period, here keyed by \<open>N\<close>; assigning a key again overwrites it in place.
\<close>

fun calculateSMA_loop ::
  "ti_library \<Rightarrow> jsnum list \<Rightarrow> nat list \<Rightarrow> (nat \<times> sma_result) list \<Rightarrow> (nat \<times> sma_result) list" where
  "calculateSMA_loop lib prices [] results = results"
| "calculateSMA_loop lib prices (period # periods) results =
     (let sma = lib_SMA lib period prices in
      calculateSMA_loop lib prices periods
        (AList.update period
           \<lparr>sr_period = period, sr_values = sma,
            sr_current = (if length sma > 0 then last sma else JNull)\<rparr> results))"

definition calculateSMA :: "ta_settings \<Rightarrow> ti_library \<Rightarrow> jsnum list \<Rightarrow> (nat \<times> sma_result) list" where
  "calculateSMA st lib prices = calculateSMA_loop lib prices (smaPeriods st) []"

definition calculateRSI :: "ta_settings \<Rightarrow> ti_library \<Rightarrow> jsnum list \<Rightarrow> rsi_result" where
  "calculateRSI st lib prices =
     (let rsi = lib_RSI lib (rsi_period (rsiSettings st)) prices;
          currentValue = (if length rsi > 0 then last rsi else JNull);
          marketCondition =
            (if currentValue \<noteq> JNull then
               (if js_ge currentValue (JNum (rsi_overbought (rsiSettings st))) then ''overbought''
                else if js_le currentValue (JNum (rsi_oversold (rsiSettings st))) then ''oversold''
                else ''neutral'')
             else ''neutral'')
      in \<lparr>rr_period = rsi_period (rsiSettings st), rr_values = rsi, rr_current = currentValue,
          rr_overbought = rsi_overbought (rsiSettings st),
          rr_oversold = rsi_oversold (rsiSettings st), rr_condition = marketCondition\<rparr>)"

text \<open>
  The crossover signal of \<open>calculateMACD\<close>, from the series \<open>macd\<close> and its last
  element \<open>current\<close>.
\<close>

definition macdCrossover :: "macd_point list \<Rightarrow> macd_point \<Rightarrow> string" where
  "macdCrossover macd current =
     (if js_gt (mp_MACD current) (mp_signal current) \<and> length macd > 1 \<and>
         js_le (mp_MACD (macd ! (length macd - 2))) (mp_signal (macd ! (length macd - 2)))
      then ''buy''
      else if js_lt (mp_MACD current) (mp_signal current) \<and> length macd > 1 \<and>
         js_ge (mp_MACD (macd ! (length macd - 2))) (mp_signal (macd ! (length macd - 2)))
      then ''sell''
      else ''neutral'')"

definition calculateMACD :: "ta_settings \<Rightarrow> ti_library \<Rightarrow> jsnum list \<Rightarrow> macd_result" where
  "calculateMACD st lib prices =
     (let ms = macdSettings st;
          macd = lib_MACD lib (macd_fastPeriod ms) (macd_slowPeriod ms) (macd_signalPeriod ms) prices;
          current = (if length macd > 0 then Some (last macd) else None);
          signal = (case current of None \<Rightarrow> ''neutral'' | Some c \<Rightarrow> macdCrossover macd c)
      in \<lparr>mr_fastPeriod = macd_fastPeriod ms, mr_slowPeriod = macd_slowPeriod ms,
          mr_signalPeriod = macd_signalPeriod ms, mr_values = macd, mr_current = current,
          mr_signal = signal\<rparr>)"

record calc_results =
  cr_cryptoId :: string
  cr_timestamp :: nat
  cr_prices :: "jsnum list"
  cr_sma :: "(nat \<times> sma_result) list"
  cr_rsi :: rsi_result
  cr_macd :: macd_result

text \<open>
  A row of the \<open>technical_indicators\<close> table, which is also the insert query that
  creates it; \<open>parameters\<close> is the serialized parameter object.
\<close>

datatype ind_params =
    SmaParams nat
  | RsiParams nat string
  | MacdLineParams nat nat nat string
  | MacdParams nat nat nat

record ind_row =
  ir_crypto_id :: string
  ir_indicator_type :: string
  ir_value :: jsnum
  ir_parameters :: ind_params
  ir_timestamp :: nat

definition smaQueries :: "string \<Rightarrow> nat \<Rightarrow> (nat \<times> sma_result) list \<Rightarrow> ind_row list" where
  "smaQueries cryptoId timestamp smas =
     concat (map (\<lambda>(key, sma).
       if sr_current sma \<noteq> JNull then
         (if sr_current sma = JNull \<or> sr_current sma = JUndefined then []
          else [\<lparr>ir_crypto_id = cryptoId, ir_indicator_type = ''SMA'',
                 ir_value = sr_current sma, ir_parameters = SmaParams (sr_period sma),
                 ir_timestamp = timestamp\<rparr>])
       else []) smas)"

definition rsiQuery :: "string \<Rightarrow> nat \<Rightarrow> rsi_result \<Rightarrow> ind_row" where
  "rsiQuery cryptoId timestamp rsi =
     \<lparr>ir_crypto_id = cryptoId, ir_indicator_type = ''RSI'', ir_value = rr_current rsi,
      ir_parameters = RsiParams (rr_period rsi) (rr_condition rsi), ir_timestamp = timestamp\<rparr>"

definition rsiQueries :: "string \<Rightarrow> nat \<Rightarrow> rsi_result \<Rightarrow> ind_row list" where
  "rsiQueries cryptoId timestamp rsi =
     (if rr_current rsi \<noteq> JNull then
        (if rr_current rsi = JNull \<or> rr_current rsi = JUndefined then []
         else [rsiQuery cryptoId timestamp rsi])
        @ [rsiQuery cryptoId timestamp rsi]
      else [])"

definition macdQueries :: "string \<Rightarrow> nat \<Rightarrow> macd_result \<Rightarrow> ind_row list" where
  "macdQueries cryptoId timestamp macd =
     (case mr_current macd of
        None \<Rightarrow> []
      | Some current \<Rightarrow>
          if mp_MACD current = JNull \<or> mp_MACD current = JUndefined then []
          else
            [\<lparr>ir_crypto_id = cryptoId, ir_indicator_type = ''MACD_line'',
              ir_value = mp_MACD current,
              ir_parameters = MacdLineParams (mr_fastPeriod macd) (mr_slowPeriod macd)
                 (mr_signalPeriod macd) (mr_signal macd),
              ir_timestamp = timestamp\<rparr>,
             \<lparr>ir_crypto_id = cryptoId, ir_indicator_type = ''MACD_signal'',
              ir_value = mp_signal current,
              ir_parameters = MacdParams (mr_fastPeriod macd) (mr_slowPeriod macd)
                 (mr_signalPeriod macd),
              ir_timestamp = timestamp\<rparr>,
             \<lparr>ir_crypto_id = cryptoId, ir_indicator_type = ''MACD_histogram'',
              ir_value = mp_histogram current,
              ir_parameters = MacdParams (mr_fastPeriod macd) (mr_slowPeriod macd)
                 (mr_signalPeriod macd),
              ir_timestamp = timestamp\<rparr>])"

text \<open>The array \<open>queries\<close> that \<open>saveIndicators\<close> hands to \<open>db.transaction\<close>.\<close>

definition indicatorQueries :: "calc_results \<Rightarrow> ind_row list" where
  "indicatorQueries results =
     smaQueries (cr_cryptoId results) (cr_timestamp results) (cr_sma results) @
     rsiQueries (cr_cryptoId results) (cr_timestamp results) (cr_rsi results) @
     macdQueries (cr_cryptoId results) (cr_timestamp results) (cr_macd results)"

datatype db_error = DbError

text \<open>
  Modelled from the spec: the persistence collaborator (\<open>database/db\<close>) is not among the
  sources. \<open>db.transaction\<close> inserts the rows of all queries in order, or fails as a
  whole and inserts none; \<open>ok\<close> says which.
\<close>

definition db_transaction :: "bool \<Rightarrow> ind_row list \<Rightarrow> ind_row list \<Rightarrow> db_error + ind_row list" where
  "db_transaction ok table queries = (if ok then Inr (table @ queries) else Inl DbError)"

definition saveIndicators :: "bool \<Rightarrow> ind_row list \<Rightarrow> calc_results \<Rightarrow> db_error + ind_row list" where
  "saveIndicators ok table results = db_transaction ok table (indicatorQueries results)"

datatype ta_error = NoHistory | SaveFailed

text \<open>
  \<open>calculateIndicators\<close>: \<open>priceData\<close> is the price history read from the store, \<open>now\<close>
  the clock. It returns the results and the table after \<open>saveIndicators\<close>.
\<close>

definition calculateIndicators ::
  "ta_settings \<Rightarrow> ti_library \<Rightarrow> bool \<Rightarrow> ind_row list \<Rightarrow> nat \<Rightarrow> string \<Rightarrow> jsnum list \<Rightarrow>
     ta_error + (calc_results \<times> ind_row list)" where
  "calculateIndicators st lib ok table now cryptoId priceData =
     (if length priceData = 0 then Inl NoHistory
      else
        (let results =
               \<lparr>cr_cryptoId = cryptoId, cr_timestamp = now, cr_prices = priceData,
                cr_sma = calculateSMA st lib priceData,
                cr_rsi = calculateRSI st lib priceData,
                cr_macd = calculateMACD st lib priceData\<rparr>
         in case saveIndicators ok table results of
              Inl e \<Rightarrow> Inl SaveFailed
            | Inr table' \<Rightarrow> Inr (results, table')))"

text \<open>
  Modelled from the spec: the query \<open>... ORDER BY timestamp DESC LIMIT 1\<close> of the
  persistence collaborator returns the newest of the matching rows (the first inserted
  among rows of equal timestamp), or nothing.
\<close>

fun newest :: "ind_row list \<Rightarrow> ind_row option" where
  "newest [] = None"
| "newest (r # rs) =
     (case newest rs of
        None \<Rightarrow> Some r
      | Some r' \<Rightarrow> if ir_timestamp r' > ir_timestamp r then Some r' else Some r)"

definition db_get_latest :: "ind_row list \<Rightarrow> string \<Rightarrow> string \<Rightarrow> ind_row option" where
  "db_get_latest table cryptoId indicatorType =
     newest (filter (\<lambda>r. ir_crypto_id r = cryptoId \<and> ir_indicator_type r = indicatorType) table)"

definition db_get_latest_sma :: "ind_row list \<Rightarrow> string \<Rightarrow> nat \<Rightarrow> ind_row option" where
  "db_get_latest_sma table cryptoId period =
     newest (filter (\<lambda>r. ir_crypto_id r = cryptoId \<and> ir_indicator_type r = ''SMA'' \<and>
                          ir_parameters r = SmaParams period) table)"

record stored_value =
  sv_value :: jsnum
  sv_timestamp :: nat

record latest_macd =
  lm_line :: stored_value
  lm_signal :: "stored_value option"
  lm_histogram :: "stored_value option"

record latest_indicators =
  li_cryptoId :: string
  li_timestamp :: nat
  li_sma :: "(nat \<times> stored_value) list"
  li_rsi :: "stored_value option"
  li_macd :: "latest_macd option"

definition stored :: "ind_row \<Rightarrow> stored_value" where
  "stored r = \<lparr>sv_value = ir_value r, sv_timestamp = ir_timestamp r\<rparr>"

fun latestSMA_loop ::
  "ind_row list \<Rightarrow> string \<Rightarrow> nat list \<Rightarrow> (nat \<times> stored_value) list \<Rightarrow> (nat \<times> stored_value) list" where
  "latestSMA_loop table cryptoId [] smaResults = smaResults"
| "latestSMA_loop table cryptoId (period # periods) smaResults =
     latestSMA_loop table cryptoId periods
       (case db_get_latest_sma table cryptoId period of
          None \<Rightarrow> smaResults
        | Some sma \<Rightarrow> AList.update period (stored sma) smaResults)"

text \<open>
  \<open>getLatestIndicators\<close> (the parsed \<open>parameters\<close> of the rows are left out of the
  result; nothing reads them).
\<close>

definition getLatestIndicators ::
  "ta_settings \<Rightarrow> ind_row list \<Rightarrow> nat \<Rightarrow> string \<Rightarrow> latest_indicators" where
  "getLatestIndicators st table now cryptoId =
     \<lparr>li_cryptoId = cryptoId, li_timestamp = now,
      li_sma = latestSMA_loop table cryptoId (smaPeriods st) [],
      li_rsi = map_option stored (db_get_latest table cryptoId ''RSI''),
      li_macd =
        (case db_get_latest table cryptoId ''MACD_line'' of
           None \<Rightarrow> None
         | Some macdLine \<Rightarrow>
             Some \<lparr>lm_line = stored macdLine,
                   lm_signal = map_option stored (db_get_latest table cryptoId ''MACD_signal''),
                   lm_histogram =
                     map_option stored (db_get_latest table cryptoId ''MACD_histogram'')\<rparr>)\<rparr>"

text \<open>
  \<open>interpretIndicators\<close> reads its argument through fixed property paths:
  \<open>sma[key].value\<close>, \<open>rsi.value\<close>, \<open>macd.line.value\<close>, \<open>macd.signal.value\<close>,
  \<open>macd.histogram.value\<close> and \<open>macd.histogram.previousValue\<close>. The argument is
  modelled by what these paths yield: \<open>None\<close> stands for a falsy object (\<open>null\<close>,
  \<open>undefined\<close>), a \<open>jsnum\<close> for the value of the path.
\<close>

record macd_view =
  mv_line :: "jsnum option"
  mv_signal :: "jsnum option"
  mv_histogram :: "(jsnum \<times> jsnum) option"

record indicators_view =
  iv_sma :: "(nat \<times> jsnum) list"
  iv_rsi :: "jsnum option"
  iv_macd :: "macd_view option"

text \<open>
  The object returned by \<open>getLatestIndicators\<close>, seen through these paths. Nothing
  sets \<open>previousValue\<close>.
\<close>

definition view_of_latest :: "latest_indicators \<Rightarrow> indicators_view" where
  "view_of_latest li =
     \<lparr>iv_sma = map (\<lambda>(period, s). (period, sv_value s)) (li_sma li),
      iv_rsi = map_option sv_value (li_rsi li),
      iv_macd = map_option (\<lambda>m.
         \<lparr>mv_line = Some (sv_value (lm_line m)),
          mv_signal = map_option sv_value (lm_signal m),
          mv_histogram = map_option (\<lambda>h. (sv_value h, JUndefined)) (lm_histogram m)\<rparr>)
        (li_macd li)\<rparr>"

text \<open>
  The object returned by \<open>calculateIndicators\<close>, seen through the same paths: its
  \<open>sma\<close> entries and its \<open>rsi\<close> have \<open>current\<close> but no \<open>value\<close>; its \<open>macd\<close> has no
  \<open>line\<close> and no \<open>histogram\<close>, and its \<open>signal\<close> is a non-empty string, which has no
  \<open>value\<close>.
\<close>

definition view_of_results :: "calc_results \<Rightarrow> indicators_view" where
  "view_of_results r =
     \<lparr>iv_sma = map (\<lambda>(period, s). (period, JUndefined)) (cr_sma r),
      iv_rsi = Some JUndefined,
      iv_macd = Some \<lparr>mv_line = None, mv_signal = Some JUndefined, mv_histogram = None\<rparr>\<rparr>"

record votes =
  buySignals :: nat
  sellSignals :: nat
  neutralSignals :: nat

record rsi_interpretation =
  ri_condition :: string
  ri_signal :: string

record macd_interpretation =
  mi_crossover :: string
  mi_signal :: string
  mi_histogram :: "string option"

record overall_interpretation =
  ov_signal :: string
  ov_strength :: "real option"
  ov_buySignals :: nat
  ov_sellSignals :: nat
  ov_neutralSignals :: nat

record interp =
  in_sma_crossover :: "string option"
  in_rsi :: "rsi_interpretation option"
  in_macd :: "macd_interpretation option"
  in_overall :: overall_interpretation

definition no_votes :: votes where
  "no_votes = \<lparr>buySignals = 0, sellSignals = 0, neutralSignals = 0\<rparr>"

definition vote :: "string \<Rightarrow> votes \<Rightarrow> votes" where
  "vote s v =
     (if s = ''buy'' then v\<lparr>buySignals := buySignals v + 1\<rparr>
      else if s = ''sell'' then v\<lparr>sellSignals := sellSignals v + 1\<rparr>
      else v\<lparr>neutralSignals := neutralSignals v + 1\<rparr>)"

text \<open>
  The SMA block: the crossover label and the vote it casts, from the shortest and the
  longest period among the keys.
\<close>

definition interpretSMA :: "(nat \<times> jsnum) list \<Rightarrow> (string \<times> string) option" where
  "interpretSMA sma =
     (let periods = sort (map fst sma) in
      if length sma > 0 \<and> length periods \<ge> 2 then
        (case (map_of sma (hd periods), map_of sma (last periods)) of
           (Some shortSMA, Some longSMA) \<Rightarrow>
             if js_gt shortSMA longSMA then Some (''bullish'', ''buy'')
             else if js_lt shortSMA longSMA then Some (''bearish'', ''sell'')
             else Some (''neutral'', ''neutral'')
         | _ \<Rightarrow> None)
      else None)"

definition interpretRSI :: "ta_settings \<Rightarrow> jsnum option \<Rightarrow> rsi_interpretation option" where
  "interpretRSI st rsi =
     (case rsi of
        None \<Rightarrow> None
      | Some rsiValue \<Rightarrow>
          if rsiValue \<noteq> JNull then
            (if js_ge rsiValue (JNum (rsi_overbought (rsiSettings st))) then
               Some \<lparr>ri_condition = ''overbought'', ri_signal = ''sell''\<rparr>
             else if js_le rsiValue (JNum (rsi_oversold (rsiSettings st))) then
               Some \<lparr>ri_condition = ''oversold'', ri_signal = ''buy''\<rparr>
             else Some \<lparr>ri_condition = ''neutral'', ri_signal = ''neutral''\<rparr>)
          else None)"

definition interpretHistogram :: "jsnum \<Rightarrow> jsnum \<Rightarrow> string" where
  "interpretHistogram histogramValue previousValue =
     (if js_gt histogramValue (JNum 0) \<and> js_gt histogramValue previousValue
        then ''increasing_positive''
      else if js_gt histogramValue (JNum 0) \<and> js_lt histogramValue previousValue
        then ''decreasing_positive''
      else if js_lt histogramValue (JNum 0) \<and> js_lt histogramValue previousValue
        then ''decreasing_negative''
      else if js_lt histogramValue (JNum 0) \<and> js_gt histogramValue previousValue
        then ''increasing_negative''
      else ''neutral'')"

text \<open>The MACD block: it compares the two stored levels \<open>macd.line.value\<close> and
  \<open>macd.signal.value\<close>.\<close>

definition interpretMACD :: "macd_view option \<Rightarrow> macd_interpretation option" where
  "interpretMACD macd =
     (case macd of
        None \<Rightarrow> None
      | Some m \<Rightarrow>
          (case (mv_line m, mv_signal m) of
             (Some macdValue, Some signalValue) \<Rightarrow>
               (let hist = map_option (\<lambda>(h, p). interpretHistogram h p) (mv_histogram m) in
                if js_gt macdValue signalValue then
                  Some \<lparr>mi_crossover = ''bullish'', mi_signal = ''buy'', mi_histogram = hist\<rparr>
                else if js_lt macdValue signalValue then
                  Some \<lparr>mi_crossover = ''bearish'', mi_signal = ''sell'', mi_histogram = hist\<rparr>
                else
                  Some \<lparr>mi_crossover = ''neutral'', mi_signal = ''neutral'',
                        mi_histogram = hist\<rparr>)
           | _ \<Rightarrow> None))"

text \<open>The votes cast by the three blocks, in the order of the source.\<close>

definition countVotes :: "ta_settings \<Rightarrow> indicators_view \<Rightarrow> votes" where
  "countVotes st iv =
     (let v1 = (case interpretSMA (iv_sma iv) of None \<Rightarrow> no_votes
                | Some (label, s) \<Rightarrow> vote s no_votes);
          v2 = (case interpretRSI st (iv_rsi iv) of None \<Rightarrow> v1
                | Some r \<Rightarrow> vote (ri_signal r) v1);
          v3 = (case interpretMACD (iv_macd iv) of None \<Rightarrow> v2
                | Some m \<Rightarrow> vote (mi_signal m) v2)
      in v3)"

definition overall :: "votes \<Rightarrow> overall_interpretation" where
  "overall v =
     (let total = buySignals v + sellSignals v + neutralSignals v;
          ratio = (\<lambda>n. if total = 0 then None else Some (real n / real total)) in
      if buySignals v > sellSignals v \<and> buySignals v > neutralSignals v then
        \<lparr>ov_signal = ''buy'', ov_strength = ratio (buySignals v),
         ov_buySignals = buySignals v, ov_sellSignals = sellSignals v,
         ov_neutralSignals = neutralSignals v\<rparr>
      else if sellSignals v > buySignals v \<and> sellSignals v > neutralSignals v then
        \<lparr>ov_signal = ''sell'', ov_strength = ratio (sellSignals v),
         ov_buySignals = buySignals v, ov_sellSignals = sellSignals v,
         ov_neutralSignals = neutralSignals v\<rparr>
      else
        \<lparr>ov_signal = ''neutral'', ov_strength = ratio (neutralSignals v),
         ov_buySignals = buySignals v, ov_sellSignals = sellSignals v,
         ov_neutralSignals = neutralSignals v\<rparr>)"

text \<open>
  \<open>interpretIndicators\<close>; \<open>None\<close> as argument is a missing object or one without
  \<open>indicators\<close>, and \<open>None\<close> as result the error object. The strength is \<open>None\<close> when
  the quotient is 0/0.
\<close>

definition interpretIndicators :: "ta_settings \<Rightarrow> indicators_view option \<Rightarrow> interp option" where
  "interpretIndicators st indicators =
     (case indicators of
        None \<Rightarrow> None
      | Some iv \<Rightarrow>
          Some \<lparr>in_sma_crossover = map_option fst (interpretSMA (iv_sma iv)),
                in_rsi = interpretRSI st (iv_rsi iv),
                in_macd = interpretMACD (iv_macd iv),
                in_overall = overall (countVotes st iv)\<rparr>)"

text \<open>The configured settings (\<open>config.analytics.indicators\<close>).\<close>

definition default_settings :: ta_settings where
  "default_settings =
     \<lparr>smaPeriods = [7, 25, 99],
      rsiSettings = \<lparr>rsi_period = 14, rsi_overbought = 70, rsi_oversold = 30\<rparr>,
      macdSettings = \<lparr>macd_fastPeriod = 12, macd_slowPeriod = 26, macd_signalPeriod = 9\<rparr>\<rparr>"

text \<open>
  Example indicator package results. In \<open>rising_library\<close> the MACD line is above its
  signal line at both of the last two observations, so it does not cross the signal line
  between them. In \<open>crossing_library\<close> the MACD line crosses the signal line upwards
  between the last two observations.
\<close>

definition rising_library :: ti_library where
  "rising_library =
     \<lparr>lib_SMA = (\<lambda>period prices. []),
      lib_RSI = (\<lambda>period prices. [JNum 50]),
      lib_MACD = (\<lambda>fast slow signal prices.
         [\<lparr>mp_MACD = JNum 2, mp_signal = JNum 1, mp_histogram = JNum 1\<rparr>,
          \<lparr>mp_MACD = JNum 3, mp_signal = JNum 1, mp_histogram = JNum 2\<rparr>])\<rparr>"

definition crossing_library :: ti_library where
  "crossing_library =
     \<lparr>lib_SMA = (\<lambda>period prices. []),
      lib_RSI = (\<lambda>period prices. [JNum 50]),
      lib_MACD = (\<lambda>fast slow signal prices.
         [\<lparr>mp_MACD = JNum 1, mp_signal = JNum 2, mp_histogram = JNum (- 1)\<rparr>,
          \<lparr>mp_MACD = JNum 3, mp_signal = JNum 2, mp_histogram = JNum 1\<rparr>])\<rparr>"

text \<open>
  The two ways in which the repository interprets a calculation: the analysis loop hands
  the object returned by \<open>calculateIndicators\<close> to \<open>interpretIndicators\<close>; the API
  routes hand it the object that \<open>getLatestIndicators\<close> reads back from the table.
\<close>

definition interpretCalculated ::
  "ta_settings \<Rightarrow> ti_library \<Rightarrow> nat \<Rightarrow> string \<Rightarrow> jsnum list \<Rightarrow> interp option" where
  "interpretCalculated st lib now cryptoId priceData =
     (case calculateIndicators st lib True [] now cryptoId priceData of
        Inl e \<Rightarrow> None
      | Inr (results, table) \<Rightarrow> interpretIndicators st (Some (view_of_results results)))"

definition interpretStored ::
  "ta_settings \<Rightarrow> ti_library \<Rightarrow> nat \<Rightarrow> string \<Rightarrow> jsnum list \<Rightarrow> interp option" where
  "interpretStored st lib now cryptoId priceData =
     (case calculateIndicators st lib True [] now cryptoId priceData of
        Inl e \<Rightarrow> None
      | Inr (results, table) \<Rightarrow>
          interpretIndicators st
            (Some (view_of_latest (getLatestIndicators st table (now + 1) cryptoId))))"

section \<open>Alert service: \<open>AlertService\<close>\<close>

text \<open>
  The environment of the service. \<open>Date.now()\<close> is a clock that is read again and
  again: \<open>w_clock w i\<close> is the value of the \<open>i\<close>-th reading and \<open>w_reads\<close> counts the
  readings made so far. The store is reached through \<open>db\<close>, which may fail:
  \<open>w_db_ok w i\<close> says whether the \<open>i\<close>-th call succeeds.
\<close>

record crypto_row =
  cy_name :: string
  cy_symbol :: string

record alert =
  al_id :: nat
  al_crypto_id :: string
  al_crypto_name :: string
  al_crypto_symbol :: string
  al_alert_type :: string
  al_old_value :: jsnum
  al_new_value :: jsnum
  al_percentage_change :: jsnum
  al_severity :: string
  al_timestamp :: nat

record world =
  w_clock :: "nat \<Rightarrow> nat"
  w_reads :: nat
  w_db_ok :: "nat \<Rightarrow> bool"
  w_db_calls :: nat
  w_cryptocurrencies :: "string \<rightharpoonup> crypto_row"
  w_alerts :: "alert list"

definition Date_now :: "world \<Rightarrow> nat \<times> world" where
  "Date_now w = (w_clock w (w_reads w), w\<lparr>w_reads := Suc (w_reads w)\<rparr>)"

text \<open>
  Modelled from the spec: the persistence collaborator (\<open>database/db\<close>) is not among the
  sources. \<open>db.get\<close> on \<open>cryptocurrencies\<close> returns the row of the id or nothing, and
  \<open>db.run\<close> of the insert appends the alert to the \<open>alerts\<close> table; either throws when
  the call fails.
\<close>

definition db_get_crypto :: "world \<Rightarrow> string \<Rightarrow> (db_error + crypto_row option) \<times> world" where
  "db_get_crypto w cid =
     ((if w_db_ok w (w_db_calls w) then Inr (w_cryptocurrencies w cid) else Inl DbError),
      w\<lparr>w_db_calls := Suc (w_db_calls w)\<rparr>)"

definition db_run_insert_alert :: "world \<Rightarrow> alert \<Rightarrow> (db_error + unit) \<times> world" where
  "db_run_insert_alert w a =
     (if w_db_ok w (w_db_calls w)
      then (Inr (), w\<lparr>w_db_calls := Suc (w_db_calls w), w_alerts := w_alerts w @ [a]\<rparr>)
      else (Inl DbError, w\<lparr>w_db_calls := Suc (w_db_calls w)\<rparr>))"

text \<open>\<open>saveAlert\<close> catches a failure of the insert and reports it in its result.\<close>

definition saveAlert :: "world \<Rightarrow> alert \<Rightarrow> bool \<times> world" where
  "saveAlert w a =
     (case db_run_insert_alert w a of
        (Inr u, w') \<Rightarrow> (True, w')
      | (Inl e, w') \<Rightarrow> (False, w'))"

record sent_entry =
  se_timestamp :: nat
  se_alert :: alert

text \<open>
  \<open>sentAlerts\<close> is a JavaScript \<open>Map\<close>: an association list in insertion order, where
  \<open>set\<close> on a present key replaces its value in place (\<open>AList.update\<close>).
\<close>

record alert_service =
  sentAlerts :: "(string \<times> sent_entry) list"
  as_priceThreshold :: real
  as_volumeThreshold :: real

definition has :: "(string \<times> 'v) list \<Rightarrow> string \<Rightarrow> bool" where
  "has m k = (map_of m k \<noteq> None)"

text \<open>Decimal digits of a number, as in a template literal.\<close>

fun show_nat :: "nat \<Rightarrow> string" where
  "show_nat n =
     (if n < 10 then [''0123456789'' ! n]
      else show_nat (n div 10) @ [''0123456789'' ! (n mod 10)])"

declare show_nat.simps [simp del]

definition cleanupSentAlerts :: "alert_service \<Rightarrow> world \<Rightarrow> alert_service \<times> world" where
  "cleanupSentAlerts svc w =
     (let (now, w') = Date_now w;
          expirationTime = 3600000
      in (svc\<lparr>sentAlerts :=
               filter (\<lambda>(key, v). \<not> (int now - int (se_timestamp v) > expirationTime))
                 (sentAlerts svc)\<rparr>, w'))"

definition anomalyAlertKey :: "anomaly \<Rightarrow> nat \<Rightarrow> string" where
  "anomalyAlertKey a now =
     an_crypto_id a @ ''-'' @ an_anomaly_type a @ ''-'' @ show_nat (now div 60000)"

text \<open>Alert type and severity of an anomaly.\<close>

definition classifyAnomaly :: "alert_service \<Rightarrow> anomaly \<Rightarrow> string \<times> string" where
  "classifyAnomaly svc a =
     (if an_anomaly_type a = ''price'' then
        (if \<bar>an_percentage_change a\<bar> \<ge> as_priceThreshold svc * 2 then
           (if an_percentage_change a > 0 then ''price_surge'' else ''price_drop'', ''high'')
         else
           (if an_percentage_change a > 0 then ''price_increase'' else ''price_decrease'',
            ''medium''))
      else if an_anomaly_type a = ''volume'' then
        (if \<bar>an_percentage_change a\<bar> \<ge> as_volumeThreshold svc * 2 then
           (''volume_spike'', ''high'')
         else (''volume_change'', ''medium''))
      else (''info'', ''medium''))"

text \<open>
  \<open>createAlertFromAnomaly\<close>: the result is the alert or \<open>None\<close> for \<open>null\<close>. A failure
  of \<open>db.get\<close> is caught by the function and gives \<open>null\<close>. The message text of the alert
  is not part of the model.
\<close>

definition createAlertFromAnomaly ::
  "alert_service \<Rightarrow> world \<Rightarrow> anomaly \<Rightarrow> alert option \<times> alert_service \<times> world" where
  "createAlertFromAnomaly svc w a =
     (case db_get_crypto w (an_crypto_id a) of
        (Inl e, w1) \<Rightarrow> (None, svc, w1)
      | (Inr None, w1) \<Rightarrow> (None, svc, w1)
      | (Inr (Some crypto), w1) \<Rightarrow>
          (let (tKey, w2) = Date_now w1;
               alertKey = anomalyAlertKey a tKey
           in if has (sentAlerts svc) alertKey then (None, svc, w2)
              else
                (let (alertType, severity) = classifyAnomaly svc a;
                     (timestamp, w3) = Date_now w2;
                     (tId, w4) = Date_now w3;
                     alert = \<lparr>al_id = tId, al_crypto_id = an_crypto_id a,
                              al_crypto_name = cy_name crypto,
                              al_crypto_symbol = cy_symbol crypto,
                              al_alert_type = alertType,
                              al_old_value = JNum (an_old_value a),
                              al_new_value = JNum (an_new_value a),
                              al_percentage_change = JNum (an_percentage_change a),
                              al_severity = severity, al_timestamp = timestamp\<rparr>;
                     (saved, w5) = saveAlert w4 alert;
                     (tSet, w6) = Date_now w5;
                     svc1 = svc\<lparr>sentAlerts :=
                              AList.update alertKey \<lparr>se_timestamp = tSet, se_alert = alert\<rparr>
                                (sentAlerts svc)\<rparr>;
                     (svc2, w7) = cleanupSentAlerts svc1 w6
                 in (Some alert, svc2, w7))))"

fun processAnomalies_loop ::
  "alert_service \<Rightarrow> world \<Rightarrow> anomaly list \<Rightarrow> alert list \<Rightarrow> alert list \<times> alert_service \<times> world" where
  "processAnomalies_loop svc w [] alerts = (alerts, svc, w)"
| "processAnomalies_loop svc w (a # as) alerts =
     (case createAlertFromAnomaly svc w a of
        (None, svc', w') \<Rightarrow> processAnomalies_loop svc' w' as alerts
      | (Some alert, svc', w') \<Rightarrow> processAnomalies_loop svc' w' as (alerts @ [alert]))"

definition processAnomalies ::
  "alert_service \<Rightarrow> world \<Rightarrow> anomaly list \<Rightarrow> alert list \<times> alert_service \<times> world" where
  "processAnomalies svc w anomalies = processAnomalies_loop svc w anomalies []"

text \<open>
  One of the four blocks of \<open>processIndicators\<close>: \<open>tag\<close> is the middle of the key
  (\<open>rsi-overbought\<close>, \<open>macd-buy\<close>, ...), the bucket is the hour. \<open>throws\<close> says that
  building the alert object raises (the RSI block formats
  \<open>indicators.indicators.rsi.value\<close> with \<open>toFixed\<close>); the exception leaves the
  function through its \<open>catch\<close>, which returns the empty array.
\<close>

datatype block_result =
    Thrown alert_service world
  | Done "alert list" alert_service world

definition indicatorAlert ::
  "string \<Rightarrow> crypto_row \<Rightarrow> nat \<Rightarrow> string \<Rightarrow> string \<Rightarrow> jsnum \<Rightarrow> string \<Rightarrow> bool \<Rightarrow>
     alert list \<Rightarrow> alert_service \<Rightarrow> world \<Rightarrow> block_result" where
  "indicatorAlert cryptoId crypto timestamp tag alertType newValue severity throws alerts svc w =
     (let (tKey, w1) = Date_now w;
          alertKey = cryptoId @ ''-'' @ tag @ ''-'' @ show_nat (tKey div 3600000)
      in if has (sentAlerts svc) alertKey then Done alerts svc w1
         else
           (let (tId, w2) = Date_now w1 in
            if throws then Thrown svc w2
            else
              (let alert = \<lparr>al_id = tId, al_crypto_id = cryptoId,
                             al_crypto_name = cy_name crypto,
                             al_crypto_symbol = cy_symbol crypto,
                             al_alert_type = alertType, al_old_value = JNull,
                             al_new_value = newValue, al_percentage_change = JNull,
                             al_severity = severity, al_timestamp = timestamp\<rparr>;
                   (saved, w3) = saveAlert w2 alert;
                   (tSet, w4) = Date_now w3;
                   svc1 = svc\<lparr>sentAlerts :=
                            AList.update alertKey \<lparr>se_timestamp = tSet, se_alert = alert\<rparr>
                              (sentAlerts svc)\<rparr>
               in Done (alerts @ [alert]) svc1 w4)))"

text \<open>Running the next block unless an earlier one has thrown.\<close>

definition and_then ::
  "block_result \<Rightarrow> (alert list \<Rightarrow> alert_service \<Rightarrow> world \<Rightarrow> block_result) \<Rightarrow> block_result" where
  "and_then r f = (case r of Thrown svc w \<Rightarrow> Thrown svc w | Done alerts svc w \<Rightarrow> f alerts svc w)"

definition rsiBlock ::
  "string \<Rightarrow> crypto_row \<Rightarrow> nat \<Rightarrow> indicators_view \<Rightarrow> interp \<Rightarrow>
     alert list \<Rightarrow> alert_service \<Rightarrow> world \<Rightarrow> block_result" where
  "rsiBlock cryptoId crypto timestamp iv i alerts svc w =
     (case in_rsi i of
        None \<Rightarrow> Done alerts svc w
      | Some r \<Rightarrow>
          if ri_condition r = ''overbought'' \<or> ri_condition r = ''oversold'' then
            indicatorAlert cryptoId crypto timestamp (''rsi-'' @ ri_condition r)
              (if ri_condition r = ''overbought'' then ''rsi_overbought'' else ''rsi_oversold'')
              (case iv_rsi iv of Some v \<Rightarrow> v | None \<Rightarrow> JUndefined) ''medium''
              (case iv_rsi iv of Some (JNum x) \<Rightarrow> False | _ \<Rightarrow> True)
              alerts svc w
          else Done alerts svc w)"

definition macdBlock ::
  "string \<Rightarrow> crypto_row \<Rightarrow> nat \<Rightarrow> interp \<Rightarrow>
     alert list \<Rightarrow> alert_service \<Rightarrow> world \<Rightarrow> block_result" where
  "macdBlock cryptoId crypto timestamp i alerts svc w =
     (case in_macd i of
        None \<Rightarrow> Done alerts svc w
      | Some m \<Rightarrow>
          if mi_signal m = ''buy'' \<or> mi_signal m = ''sell'' then
            indicatorAlert cryptoId crypto timestamp (''macd-'' @ mi_signal m)
              (if mi_signal m = ''buy'' then ''macd_bullish_cross'' else ''macd_bearish_cross'')
              JNull ''medium'' False alerts svc w
          else Done alerts svc w)"

definition smaBlock ::
  "string \<Rightarrow> crypto_row \<Rightarrow> nat \<Rightarrow> interp \<Rightarrow>
     alert list \<Rightarrow> alert_service \<Rightarrow> world \<Rightarrow> block_result" where
  "smaBlock cryptoId crypto timestamp i alerts svc w =
     (case in_sma_crossover i of
        None \<Rightarrow> Done alerts svc w
      | Some smaCrossover \<Rightarrow>
          if smaCrossover = ''bullish'' \<or> smaCrossover = ''bearish'' then
            indicatorAlert cryptoId crypto timestamp (''sma-'' @ smaCrossover)
              (if smaCrossover = ''bullish'' then ''sma_bullish_cross'' else ''sma_bearish_cross'')
              JNull ''medium'' False alerts svc w
          else Done alerts svc w)"

definition overallBlock ::
  "string \<Rightarrow> crypto_row \<Rightarrow> nat \<Rightarrow> interp \<Rightarrow>
     alert list \<Rightarrow> alert_service \<Rightarrow> world \<Rightarrow> block_result" where
  "overallBlock cryptoId crypto timestamp i alerts svc w =
     (case ov_strength (in_overall i) of
        None \<Rightarrow> Done alerts svc w
      | Some strength \<Rightarrow>
          if strength \<ge> 7 / 10 \<and>
             (ov_signal (in_overall i) = ''buy'' \<or> ov_signal (in_overall i) = ''sell'') then
            indicatorAlert cryptoId crypto timestamp (''overall-'' @ ov_signal (in_overall i))
              (if ov_signal (in_overall i) = ''buy'' then ''strong_buy_signal''
               else ''strong_sell_signal'')
              JNull ''high'' False alerts svc w
          else Done alerts svc w)"

text \<open>
  \<open>processIndicators\<close>. \<open>indicators\<close> is \<open>None\<close> for a falsy argument; \<open>interpreted\<close>
  is the result of \<open>interpretIndicators\<close>, \<open>None\<close> being its error object, which has none
  of the properties \<open>rsi\<close>, \<open>macd\<close>, \<open>sma\<close>, \<open>overall\<close>. An exception is caught and the
  empty array returned; what was stored before it stays stored.
\<close>

definition processIndicators ::
  "alert_service \<Rightarrow> world \<Rightarrow> string \<Rightarrow> indicators_view option \<Rightarrow> interp option \<Rightarrow>
     alert list \<times> alert_service \<times> world" where
  "processIndicators svc w cryptoId indicators interpreted =
     (case indicators of
        None \<Rightarrow> ([], svc, w)
      | Some iv \<Rightarrow>
          (case db_get_crypto w cryptoId of
             (Inl e, w1) \<Rightarrow> ([], svc, w1)
           | (Inr None, w1) \<Rightarrow> ([], svc, w1)
           | (Inr (Some crypto), w1) \<Rightarrow>
               (let (timestamp, w2) = Date_now w1 in
                case interpreted of
                  None \<Rightarrow> ([], svc, w2)
                | Some i \<Rightarrow>
                    (case and_then (and_then (and_then
                            (rsiBlock cryptoId crypto timestamp iv i [] svc w2)
                            (macdBlock cryptoId crypto timestamp i))
                            (smaBlock cryptoId crypto timestamp i))
                            (overallBlock cryptoId crypto timestamp i) of
                       Thrown svc' w' \<Rightarrow> ([], svc', w')
                     | Done alerts svc' w' \<Rightarrow> (alerts, svc', w')))))"




text \<open>An entry of the recently-sent set is stale at time \<open>now\<close>: older than one hour.\<close>

definition stale :: "nat \<Rightarrow> sent_entry \<Rightarrow> bool" where
  "stale now e = (int now - int (se_timestamp e) > 3600000)"

text \<open>Auxiliary notions for the properties of the alert service.\<close>

text \<open>What an operation leaves unchanged in the world, and that the clock only moves on.\<close>

definition same_env :: "world \<Rightarrow> world \<Rightarrow> bool" where
  "same_env w w' =
     (w_clock w' = w_clock w \<and> w_db_ok w' = w_db_ok w \<and>
      w_cryptocurrencies w' = w_cryptocurrencies w \<and> w_reads w \<le> w_reads w')"

fun br_state :: "block_result \<Rightarrow> alert_service \<times> world" where
  "br_state (Thrown svc w) = (svc, w)"
| "br_state (Done alerts svc w) = (svc, w)"

definition kept :: "string \<Rightarrow> sent_entry \<Rightarrow> alert_service \<times> world \<Rightarrow> alert_service \<times> world \<Rightarrow> bool" where
  "kept k e st st' =
     (same_env (snd st) (snd st') \<and>
      (map_of (sentAlerts (fst st)) k = Some e \<longrightarrow> map_of (sentAlerts (fst st')) k = Some e))"




text \<open>
  Example: the recently-sent set holds one entry inserted at time 0, and the clock shows
  two hours later. The indicators have an RSI of 80.
\<close>

definition old_entry :: sent_entry where
  "old_entry =
     \<lparr>se_timestamp = 0,
      se_alert = \<lparr>al_id = 0, al_crypto_id = ''ethereum'', al_crypto_name = ''Ethereum'',
                  al_crypto_symbol = ''eth'', al_alert_type = ''price_increase'',
                  al_old_value = JNum 100, al_new_value = JNum 106,
                  al_percentage_change = JNum 6, al_severity = ''medium'',
                  al_timestamp = 0\<rparr>\<rparr>"

definition stale_service :: alert_service where
  "stale_service =
     \<lparr>sentAlerts = [(''ethereum-price-0'', old_entry)],
      as_priceThreshold = 5, as_volumeThreshold = 20\<rparr>"

definition late_world :: world where
  "late_world =
     \<lparr>w_clock = (\<lambda>i. 7200000 + i), w_reads = 0, w_db_ok = (\<lambda>i. True), w_db_calls = 0,
      w_cryptocurrencies = [''bitcoin'' \<mapsto> \<lparr>cy_name = ''Bitcoin'', cy_symbol = ''btc''\<rparr>],
      w_alerts = []\<rparr>"

definition overbought_view :: indicators_view where
  "overbought_view = \<lparr>iv_sma = [], iv_rsi = Some (JNum 80), iv_macd = None\<rparr>"

section \<open>Fetch client: \<open>CoinGeckoService\<close>\<close>

text \<open>
  Payloads are JSON documents. As far as the client looks into them: a coin object has
  an \<open>id\<close>, a chart object has a \<open>prices\<close> array, another object has neither; arrays
  and the keyed object of the historical cache complete the type. All of them are truthy.
\<close>

datatype json =
    JCoin string
  | JChart string
  | JDoc string
  | JArray "json list"
  | JMap "(string \<times> json) list"

record cache_entry =
  ce_data :: "json option"
  ce_timestamp :: "nat option"
  ce_ttl :: nat

record cache =
  marketData :: cache_entry
  detailedData :: cache_entry
  historicalData :: cache_entry

text \<open>A request waiting in the queue of the rate limiter: the path it fetches and its cache key.\<close>

datatype cache_key = Omitted | Key string

record rate_limiter =
  requestCount :: nat
  requestLimit :: nat
  resetTime :: nat
  queue :: "(string \<times> cache_key) list"
  processingQueue :: bool

record retry_config =
  maxRetries :: nat
  baseDelay :: nat
  backoffFactor :: nat

record service =
  baseUrl :: "string option"
  currentProxyIndex :: nat
  the_cache :: cache
  rateLimiter :: rate_limiter
  retryConfig :: retry_config

definition API_PROXIES :: "string list" where
  "API_PROXIES =
     [''https://api.coingecko.com/api/v3'',
      ''https://coingecko.p.rapidapi.com/api/v3'',
      ''https://api.coincap.io/v2'']"

text \<open>The service as its constructor builds it; \<open>url\<close> is \<open>config.coingecko.baseUrl\<close>.\<close>

definition new_service :: "string option \<Rightarrow> nat \<Rightarrow> service" where
  "new_service url now =
     \<lparr>baseUrl = url, currentProxyIndex = 0,
      the_cache =
        \<lparr>marketData = \<lparr>ce_data = None, ce_timestamp = None, ce_ttl = 60000\<rparr>,
         detailedData = \<lparr>ce_data = Some (JArray []), ce_timestamp = None, ce_ttl = 300000\<rparr>,
         historicalData = \<lparr>ce_data = Some (JMap []), ce_timestamp = None, ce_ttl = 3600000\<rparr>\<rparr>,
      rateLimiter = \<lparr>requestCount = 0, requestLimit = 40, resetTime = now + 60000, queue = [],
                     processingQueue = False\<rparr>,
      retryConfig = \<lparr>maxRetries = 5, baseDelay = 2000, backoffFactor = 2\<rparr>\<rparr>"

text \<open>\<open>this.baseUrl || API_PROXIES[this.currentProxyIndex]\<close>: an empty string is falsy.\<close>

definition getApiUrl :: "service \<Rightarrow> string" where
  "getApiUrl s =
     (case baseUrl s of
        Some u \<Rightarrow> if u \<noteq> [] then u else API_PROXIES ! currentProxyIndex s
      | None \<Rightarrow> API_PROXIES ! currentProxyIndex s)"

definition switchToNextProxy :: "service \<Rightarrow> service" where
  "switchToNextProxy s = s\<lparr>currentProxyIndex := (currentProxyIndex s + 1) mod length API_PROXIES\<rparr>"

text \<open>
  The environment of a fetch: the clock as a sequence of readings, the outcome of the
  \<open>i\<close>-th provider call, and what the client has done so far: the URLs it requested, the
  delays it slept and the events it emitted.
\<close>

datatype api_response = Resolved "json option" | Rejected "nat option"

datatype event = ErrorEvent | MarketDataUpdated json | DetailedDataUpdated json

record fetch_env =
  fe_clock :: "nat \<Rightarrow> nat"
  fe_reads :: nat
  fe_responses :: "nat \<Rightarrow> api_response"
  fe_requests :: "string list"
  fe_sleeps :: "nat list"
  fe_events :: "event list"

definition clock_read :: "fetch_env \<Rightarrow> nat \<times> fetch_env" where
  "clock_read e = (fe_clock e (fe_reads e), e\<lparr>fe_reads := Suc (fe_reads e)\<rparr>)"

definition sleep :: "nat \<Rightarrow> fetch_env \<Rightarrow> fetch_env" where
  "sleep delay e = e\<lparr>fe_sleeps := fe_sleeps e @ [delay]\<rparr>"

definition emit :: "event \<Rightarrow> fetch_env \<Rightarrow> fetch_env" where
  "emit ev e = e\<lparr>fe_events := fe_events e @ [ev]\<rparr>"

text \<open>
  The closures \<open>apiCall\<close> of the fetch functions: \<open>axios.get\<close> on the current API URL
  followed by \<open>path\<close>. \<open>Resolved None\<close> is a result that is \<open>null\<close> or \<open>undefined\<close>,
  \<open>Rejected status\<close> an exception, with the status of its \<open>response\<close> if it has one.
\<close>

definition apiCallFn :: "string \<Rightarrow> service \<Rightarrow> fetch_env \<Rightarrow> api_response \<times> fetch_env" where
  "apiCallFn path s e =
     (fe_responses e (length (fe_requests e)),
      e\<lparr>fe_requests := fe_requests e @ [getApiUrl s @ path]\<rparr>)"

datatype fetch_error = TypeError | EmptyResponse | ApiError "nat option" | OtherError

text \<open>
  \<open>this.cache[cacheKey]\<close>. The cache is a plain object with three own properties; a
  name that every object inherits from \<open>Object.prototype\<close> yields the inherited member,
  which is an object or a function without \<open>data\<close>, \<open>timestamp\<close> and \<open>ttl\<close>; any other
  name, and an omitted key, yields \<open>undefined\<close>.
\<close>

definition objectPrototypeProps :: "string list" where
  "objectPrototypeProps =
     [''constructor'', ''__proto__'', ''hasOwnProperty'', ''isPrototypeOf'',
      ''propertyIsEnumerable'', ''toLocaleString'', ''toString'', ''valueOf'',
      ''__defineGetter__'', ''__defineSetter__'', ''__lookupGetter__'', ''__lookupSetter__'']"

datatype cache_slot = NoSlot | Inherited | Slot cache_entry

definition cacheLookup :: "cache \<Rightarrow> cache_key \<Rightarrow> cache_slot" where
  "cacheLookup c key =
     (case key of
        Omitted \<Rightarrow> NoSlot
      | Key k \<Rightarrow>
          if k = ''marketData'' then Slot (marketData c)
          else if k = ''detailedData'' then Slot (detailedData c)
          else if k = ''historicalData'' then Slot (historicalData c)
          else if k \<in> set objectPrototypeProps then Inherited
          else NoSlot)"

text \<open>
  \<open>this.cache[cacheKey].data = result; this.cache[cacheKey].timestamp = Date.now()\<close> under
  the guard \<open>cacheKey && this.cache[cacheKey]\<close>. For an inherited member the two
  assignments change that member, which is not part of the service.
\<close>

definition cacheStore :: "cache \<Rightarrow> cache_key \<Rightarrow> json \<Rightarrow> nat \<Rightarrow> cache" where
  "cacheStore c key result now =
     (case key of
        Omitted \<Rightarrow> c
      | Key k \<Rightarrow>
          if k = ''marketData'' then
            c\<lparr>marketData := (marketData c)\<lparr>ce_data := Some result, ce_timestamp := Some now\<rparr>\<rparr>
          else if k = ''detailedData'' then
            c\<lparr>detailedData := (detailedData c)\<lparr>ce_data := Some result, ce_timestamp := Some now\<rparr>\<rparr>
          else if k = ''historicalData'' then
            c\<lparr>historicalData := (historicalData c)\<lparr>ce_data := Some result, ce_timestamp := Some now\<rparr>\<rparr>
          else c)"

definition storesResult :: "cache \<Rightarrow> cache_key \<Rightarrow> bool" where
  "storesResult c key =
     (case key of Omitted \<Rightarrow> False | Key k \<Rightarrow> k \<noteq> [] \<and> cacheLookup c key \<noteq> NoSlot)"

definition canMakeRequest :: "service \<Rightarrow> bool" where
  "canMakeRequest s = (requestCount (rateLimiter s) < requestLimit (rateLimiter s))"

definition incrementRequestCount :: "service \<Rightarrow> service" where
  "incrementRequestCount s =
     s\<lparr>rateLimiter := (rateLimiter s)\<lparr>requestCount := requestCount (rateLimiter s) + 1\<rparr>\<rparr>"

text \<open>The error thrown for an outcome of the provider call that is not a result.\<close>

fun error_of :: "api_response \<Rightarrow> fetch_error" where
  "error_of (Resolved r) = EmptyResponse"
| "error_of (Rejected status) = ApiError status"

fun status_of :: "api_response \<Rightarrow> nat option" where
  "status_of (Resolved r) = None"
| "status_of (Rejected status) = status"

text \<open>
  \<open>executeWithRetry\<close>: the loop \<open>while (retryCount <= maxRetries)\<close>, with \<open>retryCount\<close>
  and \<open>lastError\<close> as arguments (\<open>None\<close> is the initial \<open>null\<close>).
\<close>

function executeWithRetry_loop ::
  "string \<Rightarrow> cache_key \<Rightarrow> nat \<Rightarrow> fetch_error option \<Rightarrow> service \<Rightarrow> fetch_env \<Rightarrow>
     (fetch_error option + json) \<times> service \<times> fetch_env" where
  "executeWithRetry_loop path cacheKey retryCount lastError s e =
     (if retryCount \<le> maxRetries (retryConfig s) then
        (case apiCallFn path s e of
           (Resolved (Some result), e1) \<Rightarrow>
             (let s1 = incrementRequestCount s in
              if storesResult (the_cache s1) cacheKey then
                (let (now, e2) = clock_read e1 in
                 (Inr result, s1\<lparr>the_cache := cacheStore (the_cache s1) cacheKey result now\<rparr>, e2))
              else (Inr result, s1, e1))
         | (response, e1) \<Rightarrow>
             (if status_of response = Some 404 then (Inl (Some (error_of response)), s, e1)
              else if retryCount + 1 > maxRetries (retryConfig s) then
                (Inl (Some (error_of response)), s, e1)
              else
                (let delay = baseDelay (retryConfig s) *
                             backoffFactor (retryConfig s) ^ (retryCount + 1 - 1)
                 in executeWithRetry_loop path cacheKey (retryCount + 1)
                      (Some (error_of response)) s (sleep delay e1))))
      else (Inl lastError, s, e))"
  by pat_completeness auto
termination
  by (relation "measure (\<lambda>(path, cacheKey, retryCount, lastError, s, e).
        Suc (maxRetries (retryConfig s)) - retryCount)") auto

declare executeWithRetry_loop.simps [simp del]

definition executeWithRetry ::
  "string \<Rightarrow> cache_key \<Rightarrow> service \<Rightarrow> fetch_env \<Rightarrow> (fetch_error option + json) \<times> service \<times> fetch_env" where
  "executeWithRetry path cacheKey s e = executeWithRetry_loop path cacheKey 0 None s e"

text \<open>
  How a call of an asynchronous function ends: it throws, it returns, or it stays
  suspended (a request in the queue that another drainer will serve).
\<close>

datatype 'a settled = Threw "fetch_error option" | Returned 'a | Pending

fun settle :: "fetch_error option + json \<Rightarrow> json settled" where
  "settle (Inl err) = Threw err"
| "settle (Inr result) = Returned result"

text \<open>
  \<open>processQueue\<close>, run to the end without interleaving: it serves the queued requests
  in order and returns how each was settled.
\<close>

fun processQueue_loop ::
  "(string \<times> cache_key) list \<Rightarrow> json settled list \<Rightarrow> service \<Rightarrow> fetch_env \<Rightarrow>
     json settled list \<times> service \<times> fetch_env" where
  "processQueue_loop [] results s e = (results, s, e)"
| "processQueue_loop ((path, cacheKey) # rest) results s e =
     (let (s1, e1) =
            (if \<not> canMakeRequest s then
               (let (now, e') = clock_read e;
                    waitTime = resetTime (rateLimiter s) - now
                in (s\<lparr>rateLimiter := (rateLimiter s)\<lparr>requestCount := 0\<rparr>\<rparr>, sleep waitTime e'))
             else (s, e));
          s2 = s1\<lparr>rateLimiter := (rateLimiter s1)\<lparr>queue := rest\<rparr>\<rparr>
      in case executeWithRetry path cacheKey s2 e1 of
           (r, s3, e3) \<Rightarrow> processQueue_loop rest (results @ [settle r]) s3 (sleep 200 e3))"

definition processQueue :: "service \<Rightarrow> fetch_env \<Rightarrow> json settled list \<times> service \<times> fetch_env" where
  "processQueue s e =
     (if length (queue (rateLimiter s)) = 0 \<or> processingQueue (rateLimiter s) then ([], s, e)
      else
        (case processQueue_loop (queue (rateLimiter s)) []
                (s\<lparr>rateLimiter := (rateLimiter s)\<lparr>processingQueue := True\<rparr>\<rparr>) e of
           (results, s1, e1) \<Rightarrow>
             (results, s1\<lparr>rateLimiter := (rateLimiter s1)\<lparr>processingQueue := False\<rparr>\<rparr>, e1)))"

text \<open>\<open>cache.data && cache.timestamp && (now - cache.timestamp) < cache.ttl\<close>\<close>

definition fresh :: "cache_slot \<Rightarrow> nat \<Rightarrow> json option" where
  "fresh slot now =
     (case slot of
        Slot c \<Rightarrow>
          (case (ce_data c, ce_timestamp c) of
             (Some d, Some t) \<Rightarrow>
               if t \<noteq> 0 \<and> int now - int t < int (ce_ttl c) then Some d else None
           | _ \<Rightarrow> None)
      | _ \<Rightarrow> None)"

text \<open>
  \<open>executeApiCall\<close>, the second definition of this name in the class, which is the one
  in effect. Reading \<open>cache.data\<close> of an \<open>undefined\<close> cache entry throws a TypeError.
\<close>

definition executeApiCall ::
  "string \<Rightarrow> cache_key \<Rightarrow> service \<Rightarrow> fetch_env \<Rightarrow> json settled \<times> service \<times> fetch_env" where
  "executeApiCall path cacheKey s e =
     (let slot = cacheLookup (the_cache s) cacheKey;
          (now, e1) = clock_read e
      in if slot = NoSlot then (Threw (Some TypeError), s, e1)
         else
           (case fresh slot now of
              Some d \<Rightarrow> (Returned d, s, e1)
            | None \<Rightarrow>
                if canMakeRequest s then
                  (case executeWithRetry path cacheKey s e1 of (r, s2, e2) \<Rightarrow> (settle r, s2, e2))
                else
                  (let s2 = s\<lparr>rateLimiter := (rateLimiter s)
                              \<lparr>queue := queue (rateLimiter s) @ [(path, cacheKey)]\<rparr>\<rparr>
                   in if \<not> processingQueue (rateLimiter s2) then
                        (case processQueue s2 e1 of
                           (results, s3, e3) \<Rightarrow>
                             ((case results of [] \<Rightarrow> Pending | r # rs \<Rightarrow> last results), s3, e3))
                      else (Pending, s2, e1))))"

text \<open>\<open>fetchMarketData\<close>; the result \<open>None\<close> is \<open>null\<close>. The text of the error message is not modelled.\<close>

definition fetchMarketData :: "service \<Rightarrow> fetch_env \<Rightarrow> json option settled \<times> service \<times> fetch_env" where
  "fetchMarketData s e =
     (case executeApiCall ''/coins/markets'' (Key ''marketData'') s e of
        (Returned d, s1, e1) \<Rightarrow> (Returned (Some d), s1, emit (MarketDataUpdated d) e1)
      | (Pending, s1, e1) \<Rightarrow> (Pending, s1, e1)
      | (Threw err, s1, e1) \<Rightarrow>
          (let e2 = emit ErrorEvent e1 in
           case ce_data (marketData (the_cache s1)) of
             Some d \<Rightarrow> (Returned (Some d), s1, emit (MarketDataUpdated d) e2)
           | None \<Rightarrow> (Returned None, s1, e2)))"

definition find_coin :: "json list \<Rightarrow> string \<Rightarrow> json option" where
  "find_coin coins coinId = find (\<lambda>coin. coin = JCoin coinId) coins"

text \<open>\<open>data && data.length > 0\<close> followed by \<open>data.find(coin => coin.id === coinId)\<close>.\<close>

definition cached_coin :: "cache_entry \<Rightarrow> string \<Rightarrow> json option" where
  "cached_coin c coinId =
     (case ce_data c of
        Some (JArray coins) \<Rightarrow> if length coins > 0 then find_coin coins coinId else None
      | _ \<Rightarrow> None)"

definition getCoinById :: "string \<Rightarrow> service \<Rightarrow> fetch_env \<Rightarrow> json settled \<times> service \<times> fetch_env" where
  "getCoinById coinId s e =
     (case cached_coin (marketData (the_cache s)) coinId of
        Some cachedCoin \<Rightarrow> (Returned cachedCoin, s, e)
      | None \<Rightarrow>
          (case cached_coin (detailedData (the_cache s)) coinId of
             Some cachedDetailedCoin \<Rightarrow> (Returned cachedDetailedCoin, s, e)
           | None \<Rightarrow> executeApiCall (''/coins/'' @ coinId) Omitted s e))"

text \<open>
  The keyed object \<open>this.cache.historicalData.data\<close>: reading and writing the entry of a
  key. In every state that the constructor and the functions below produce, the data of
  the historical cache is such a keyed object.
\<close>

definition historical_entry :: "cache \<Rightarrow> string \<Rightarrow> json option" where
  "historical_entry c key =
     (case ce_data (historicalData c) of Some (JMap m) \<Rightarrow> map_of m key | _ \<Rightarrow> None)"

definition historical_store :: "cache \<Rightarrow> string \<Rightarrow> json \<Rightarrow> nat \<Rightarrow> cache" where
  "historical_store c key d now =
     c\<lparr>historicalData := (historicalData c)
        \<lparr>ce_data := (case ce_data (historicalData c) of
                       Some (JMap m) \<Rightarrow> Some (JMap (AList.update key d m))
                     | None \<Rightarrow> Some (JMap [(key, d)])
                     | other \<Rightarrow> other),
         ce_timestamp := Some now\<rparr>\<rparr>"

definition historical_init :: "service \<Rightarrow> service" where
  "historical_init s =
     (case ce_data (historicalData (the_cache s)) of
        None \<Rightarrow> s\<lparr>the_cache := (the_cache s)
                   \<lparr>historicalData := (historicalData (the_cache s))\<lparr>ce_data := Some (JMap [])\<rparr>\<rparr>\<rparr>
      | Some d \<Rightarrow> s)"

text \<open>The \<open>catch\<close> of \<open>fetchHistoricalData\<close>: the error event, then the cached entry or \<open>null\<close>.\<close>

definition historical_fallback ::
  "string \<Rightarrow> service \<Rightarrow> fetch_env \<Rightarrow> json option settled \<times> service \<times> fetch_env" where
  "historical_fallback key s e =
     (Returned (historical_entry (the_cache s) key), s, emit ErrorEvent e)"

text \<open>
  The cache check of \<open>fetchHistoricalData\<close>: the entry of the key if it is fresh. The
  clock is read only when the entry and the timestamp are truthy.
\<close>

definition historical_hit :: "string \<Rightarrow> service \<Rightarrow> fetch_env \<Rightarrow> json option \<times> fetch_env" where
  "historical_hit cacheKey s e =
     (let h = historicalData (the_cache s) in
      case (historical_entry (the_cache s) cacheKey, ce_timestamp h) of
        (Some d, Some t) \<Rightarrow>
          if t \<noteq> 0 then
            (let (now, e') = clock_read e in
             (if int now - int t < int (ce_ttl h) then Some d else None, e'))
          else (None, e)
      | _ \<Rightarrow> (None, e))"

definition historical_key :: "string \<Rightarrow> nat \<Rightarrow> string" where
  "historical_key coinId days = coinId @ ''_'' @ show_nat days"

definition fetchHistoricalData ::
  "string \<Rightarrow> nat \<Rightarrow> service \<Rightarrow> fetch_env \<Rightarrow> json option settled \<times> service \<times> fetch_env" where
  "fetchHistoricalData coinId days s0 e =
     (let s = historical_init s0;
          cacheKey = historical_key coinId days;
          (hit, e1) = historical_hit cacheKey s e
      in case hit of
           Some d \<Rightarrow> (Returned (Some d), s, e1)
         | None \<Rightarrow>
             (case executeApiCall (''/coins/'' @ coinId @ ''/market_chart'') Omitted s e1 of
                (Pending, s2, e2) \<Rightarrow> (Pending, s2, e2)
              | (Threw err, s2, e2) \<Rightarrow> historical_fallback cacheKey s2 e2
              | (Returned (JChart c), s2, e2) \<Rightarrow>
                  (let (now, e3) = clock_read e2 in
                   (Returned (Some (JChart c)),
                    s2\<lparr>the_cache := historical_store (the_cache s2) cacheKey (JChart c) now\<rparr>, e3))
              | (Returned other, s2, e2) \<Rightarrow> historical_fallback cacheKey s2 e2))"

text \<open>
  The body of the loop of \<open>fetchDetailedData\<close> for one coin id (\<open>None\<close> is an element
  of the market data without \<open>id\<close>); \<open>now\<close> is the time read before the loop, \<open>acc\<close>
  the array \<open>detailedDataArray\<close>. \<open>find\<close> needs the detailed cache to hold an array,
  anything else raises a TypeError.
\<close>

definition detailedStep ::
  "nat \<Rightarrow> string option \<Rightarrow> json list \<Rightarrow> service \<Rightarrow> fetch_env \<Rightarrow>
     json list settled \<times> service \<times> fetch_env" where
  "detailedStep now coinId acc s e =
     (case ce_data (detailedData (the_cache s)) of
        Some (JArray coins) \<Rightarrow>
          (let cachedCoin = (case coinId of Some i \<Rightarrow> find_coin coins i | None \<Rightarrow> None);
               d = detailedData (the_cache s);
               isCacheValid =
                 (case (cachedCoin, ce_timestamp d) of
                    (Some c, Some t) \<Rightarrow> t \<noteq> 0 \<and> int now - int t < int (ce_ttl d)
                  | _ \<Rightarrow> False)
           in case (isCacheValid, cachedCoin) of
                (True, Some c) \<Rightarrow> (Returned (acc @ [c]), s, e)
              | _ \<Rightarrow>
                (case executeApiCall
                        (''/coins/'' @ (case coinId of Some i \<Rightarrow> i | None \<Rightarrow> ''undefined''))
                        Omitted s e of
                   (Pending, s1, e1) \<Rightarrow> (Pending, s1, e1)
                 | (Returned coinData, s1, e1) \<Rightarrow>
                     (Returned (acc @ [coinData]), s1, sleep 300 e1)
                 | (Threw err, s1, e1) \<Rightarrow>
                     (Returned (case cachedCoin of Some c \<Rightarrow> acc @ [c] | None \<Rightarrow> acc), s1,
                      sleep 300 e1)))
      | _ \<Rightarrow> (Threw (Some TypeError), s, e))"

fun detailedLoop ::
  "nat \<Rightarrow> string option list \<Rightarrow> json list \<Rightarrow> service \<Rightarrow> fetch_env \<Rightarrow>
     json list settled \<times> service \<times> fetch_env" where
  "detailedLoop now [] acc s e = (Returned acc, s, e)"
| "detailedLoop now (coinId # topCoins) acc s e =
     (case detailedStep now coinId acc s e of
        (Returned acc', s1, e1) \<Rightarrow> detailedLoop now topCoins acc' s1 e1
      | (other, s1, e1) \<Rightarrow> (other, s1, e1))"

fun coin_id_of :: "json \<Rightarrow> string option" where
  "coin_id_of (JCoin i) = Some i"
| "coin_id_of other = None"

text \<open>The outer \<open>catch\<close> of \<open>fetchDetailedData\<close>.\<close>

definition detailed_fallback :: "service \<Rightarrow> fetch_env \<Rightarrow> json option settled \<times> service \<times> fetch_env" where
  "detailed_fallback s e =
     (let e1 = emit ErrorEvent e;
          d = ce_data (detailedData (the_cache s))
      in (Returned d, s,
          (case d of
             Some (JArray (c # cs)) \<Rightarrow> emit (DetailedDataUpdated (JArray (c # cs))) e1
           | _ \<Rightarrow> e1)))"

text \<open>
  \<open>fetchDetailedData\<close> from the point where the market data are known to be present:
  an array is needed for \<open>slice\<close> and for \<open>find\<close>, anything else raises a TypeError into
  the outer \<open>catch\<close>.
\<close>

definition fetchDetailed_rest :: "service \<Rightarrow> fetch_env \<Rightarrow> json option settled \<times> service \<times> fetch_env" where
  "fetchDetailed_rest s e =
     (case ce_data (marketData (the_cache s)) of
        Some (JArray market) \<Rightarrow>
          (let topCoins = map coin_id_of (take 10 market);
               (now, e1) = clock_read e
           in case detailedLoop now topCoins [] s e1 of
                (Pending, s1, e2) \<Rightarrow> (Pending, s1, e2)
              | (Threw err, s1, e2) \<Rightarrow> detailed_fallback s1 e2
              | (Returned arr, s1, e2) \<Rightarrow>
                  (let (t, e3) = clock_read e2 in
                   (Returned (Some (JArray arr)),
                    s1\<lparr>the_cache := (the_cache s1)
                        \<lparr>detailedData := (detailedData (the_cache s1))
                           \<lparr>ce_data := Some (JArray arr), ce_timestamp := Some t\<rparr>\<rparr>\<rparr>,
                    emit (DetailedDataUpdated (JArray arr)) e3)))
      | _ \<Rightarrow> detailed_fallback s e)"

definition fetchDetailedData :: "service \<Rightarrow> fetch_env \<Rightarrow> json option settled \<times> service \<times> fetch_env" where
  "fetchDetailedData s e =
     (if ce_data (marketData (the_cache s)) = None \<or>
         ce_data (marketData (the_cache s)) = Some (JArray []) then
        (case fetchMarketData s e of
           (Pending, s1, e1) \<Rightarrow> (Pending, s1, e1)
         | (r, s1, e1) \<Rightarrow>
             if ce_data (marketData (the_cache s1)) = None then detailed_fallback s1 e1
             else fetchDetailed_rest s1 e1)
      else fetchDetailed_rest s e)"

text \<open>
  A cache key names a property of the cache object: one of its three own properties or a
  property it inherits.
\<close>

definition names_cache_property :: "cache_key \<Rightarrow> bool" where
  "names_cache_property key =
     (case key of
        Omitted \<Rightarrow> False
      | Key k \<Rightarrow>
          k \<in> {''marketData'', ''detailedData'', ''historicalData''} \<union> set objectPrototypeProps)"

text \<open>
  Example environments: a clock that starts at 1000, no request made yet. In
  \<open>limited_env status\<close> the first provider call fails with the status and the second
  succeeds; in \<open>failing_env status\<close> every call fails with the status.
\<close>

definition limited_env :: "nat \<Rightarrow> fetch_env" where
  "limited_env status =
     \<lparr>fe_clock = (\<lambda>i. 1000 + i), fe_reads = 0,
      fe_responses = (\<lambda>i. if i = 0 then Rejected (Some status)
                           else Resolved (Some (JArray [JCoin ''bitcoin'']))),
      fe_requests = [], fe_sleeps = [], fe_events = []\<rparr>"

definition failing_env :: "nat \<Rightarrow> fetch_env" where
  "failing_env status =
     \<lparr>fe_clock = (\<lambda>i. 1000 + i), fe_reads = 0,
      fe_responses = (\<lambda>i. Rejected (Some status)),
      fe_requests = [], fe_sleeps = [], fe_events = []\<rparr>"

section \<open>Correlation engine: \<open>CorrelationAnalysisService\<close>\<close>

text \<open>
  A time series is the array of \<open>{timestamp, price}\<close> items of one asset, the timestamp
  in milliseconds. Prices are reals: the model computes in exact arithmetic.
\<close>

type_synonym series = "(nat \<times> real) list"

text \<open>
  \<open>new Map(entries)\<close>: the keys in the order of their first occurrence, each with the
  value of its last occurrence.
\<close>

definition js_Map :: "('k \<times> 'v) list \<Rightarrow> ('k \<times> 'v) list" where
  "js_Map entries = foldl (\<lambda>m (k, v). AList.update k v m) [] entries"

text \<open>
  \<open>alignTimeSeries\<close>: the timestamps of the first map that the second map has, and for
  each of them the price in either map.
\<close>

definition alignTimeSeries :: "series \<Rightarrow> series \<Rightarrow> real list \<times> real list" where
  "alignTimeSeries series1 series2 =
     (let map1 = js_Map series1;
          map2 = js_Map series2;
          commonTimestamps = filter (\<lambda>ts. map_of map2 ts \<noteq> None) (map fst map1)
      in (List.map_filter (map_of map1) commonTimestamps,
          List.map_filter (map_of map2) commonTimestamps))"

text \<open>
  \<open>toFixed(4)\<close> followed by \<open>parseFloat\<close>: rounding to four decimals, a tie away from
  zero.
\<close>

definition toFixed4 :: "real \<Rightarrow> real" where
  "toFixed4 x =
     (if x < 0 then - (of_int \<lfloor>- x * 10000 + 1 / 2\<rfloor> / 10000)
      else of_int \<lfloor>x * 10000 + 1 / 2\<rfloor> / 10000)"

text \<open>The three sums of the loop of \<open>calculatePearsonCorrelation\<close>, over the aligned prices.\<close>

definition diffs :: "real list \<Rightarrow> real list \<Rightarrow> (real \<times> real) list" where
  "diffs prices1 prices2 =
     (let mean1 = sum_list prices1 / real (length prices1);
          mean2 = sum_list prices2 / real (length prices2)
      in zip (map (\<lambda>p. p - mean1) prices1) (map (\<lambda>p. p - mean2) prices2))"

definition numerator :: "real list \<Rightarrow> real list \<Rightarrow> real" where
  "numerator prices1 prices2 = sum_list (map (\<lambda>(diff1, diff2). diff1 * diff2) (diffs prices1 prices2))"

definition denominator1 :: "real list \<Rightarrow> real list \<Rightarrow> real" where
  "denominator1 prices1 prices2 = sum_list (map (\<lambda>(diff1, diff2). diff1 * diff1) (diffs prices1 prices2))"

definition denominator2 :: "real list \<Rightarrow> real list \<Rightarrow> real" where
  "denominator2 prices1 prices2 = sum_list (map (\<lambda>(diff1, diff2). diff2 * diff2) (diffs prices1 prices2))"

text \<open>\<open>calculatePearsonCorrelation\<close> (the warning it logs once is not modelled).\<close>

definition calculatePearsonCorrelation :: "series \<Rightarrow> series \<Rightarrow> real" where
  "calculatePearsonCorrelation series1 series2 =
     (let (prices1, prices2) = alignTimeSeries series1 series2 in
      if length prices1 < 2 then 0
      else if denominator1 prices1 prices2 = 0 \<or> denominator2 prices1 prices2 = 0 then 0
      else toFixed4 (numerator prices1 prices2 /
                     (sqrt (denominator1 prices1 prices2) * sqrt (denominator2 prices1 prices2))))"

text \<open>
  The object \<open>result.correlations\<close>: a row per asset, each row an object keyed by asset.
  \<open>ensure_row\<close> is \<open>if (!correlations[c]) correlations[c] = {}\<close>, \<open>set_entry\<close> is the
  assignment \<open>correlations[a][b] = v\<close> to an existing row.
\<close>

type_synonym matrix = "(string \<times> (string \<times> real) list) list"

definition ensure_row :: "matrix \<Rightarrow> string \<Rightarrow> matrix" where
  "ensure_row m c = (if map_of m c = None then m @ [(c, [])] else m)"

definition set_entry :: "matrix \<Rightarrow> string \<Rightarrow> string \<Rightarrow> real \<Rightarrow> matrix" where
  "set_entry m a b v = AList.map_entry a (AList.update b v) m"

definition entry :: "matrix \<Rightarrow> string \<Rightarrow> string \<Rightarrow> real option" where
  "entry m a b = (case map_of m a of None \<Rightarrow> None | Some row \<Rightarrow> map_of row b)"














definition has_row :: "matrix \<Rightarrow> string \<Rightarrow> bool" where
  "has_row m a = (map_of m a \<noteq> None)"


section \<open>Forecast ensemble: \<open>pricePrediction.js\<close>\<close>

text \<open>
  Numbers are reals. A method that throws returns \<open>Inl\<close>; the object keeps the state it
  had when the exception was raised.
\<close>

datatype model_error = ModelError

subsection \<open>\<open>LinearRegression\<close>\<close>

record linear_regression =
  lr_alpha :: real
  lr_beta :: real
  lr_trained :: bool

definition new_linear_regression :: linear_regression where
  "new_linear_regression = \<lparr>lr_alpha = 0, lr_beta = 0, lr_trained = False\<rparr>"

definition lr_train :: "real list \<Rightarrow> real list \<Rightarrow> linear_regression \<Rightarrow> model_error + linear_regression" where
  "lr_train x y m =
     (if length x \<noteq> length y \<or> length x = 0 then Inl ModelError
      else
        (let n = real (length x);
             sumX = sum_list x;
             sumY = sum_list y;
             sumXY = sum_list (map (\<lambda>(xi, yi). xi * yi) (zip x y));
             sumX2 = sum_list (map (\<lambda>xi. xi * xi) x);
             denominator = n * sumX2 - sumX * sumX
         in if denominator = 0 then Inl ModelError
            else
              (let beta = (n * sumXY - sumX * sumY) / denominator;
                   alpha = (sumY - beta * sumX) / n
               in Inr \<lparr>lr_alpha = alpha, lr_beta = beta, lr_trained = True\<rparr>)))"

definition lr_predict :: "linear_regression \<Rightarrow> real list \<Rightarrow> model_error + real list" where
  "lr_predict m x =
     (if \<not> lr_trained m then Inl ModelError
      else Inr (map (\<lambda>xi. lr_alpha m + lr_beta m * xi) x))"

subsection \<open>\<open>ExponentialSmoothing\<close>\<close>

record exponential_smoothing =
  es_alpha :: real
  es_beta :: real
  es_level :: "real option"
  es_trend :: "real option"

definition new_exponential_smoothing :: exponential_smoothing where
  "new_exponential_smoothing =
     \<lparr>es_alpha = 3 / 10, es_beta = 1 / 10, es_level = None, es_trend = None\<rparr>"

text \<open>\<open>initialize\<close>: the first value and the mean of the successive differences.\<close>

definition es_initialize :: "real list \<Rightarrow> real \<times> real" where
  "es_initialize data =
     (hd data,
      sum_list (map (\<lambda>i. data ! i - data ! (i - 1)) [1 ..< length data]) /
        real (length data - 1))"

text \<open>One round of the loop of \<open>fit\<close> on the level and the trend.\<close>

definition es_update :: "real \<Rightarrow> real \<Rightarrow> real \<Rightarrow> real \<times> real \<Rightarrow> real \<times> real" where
  "es_update alpha beta observation st =
     (case st of (oldLevel, oldTrend) \<Rightarrow>
        (let level = alpha * observation + (1 - alpha) * (oldLevel + oldTrend);
             trend = beta * (level - oldLevel) + (1 - beta) * oldTrend
         in (level, trend)))"

definition es_fit :: "real list \<Rightarrow> exponential_smoothing \<Rightarrow> model_error + exponential_smoothing" where
  "es_fit data m =
     (if length data < 2 then Inl ModelError
      else
        (case fold (es_update (es_alpha m) (es_beta m)) (tl data) (es_initialize data) of
           (level, trend) \<Rightarrow> Inr (m\<lparr>es_level := Some level, es_trend := Some trend\<rparr>)))"

definition es_forecast :: "exponential_smoothing \<Rightarrow> nat \<Rightarrow> model_error + real list" where
  "es_forecast m steps =
     (case (es_level m, es_trend m) of
        (Some level, Some trend) \<Rightarrow>
          Inr (map (\<lambda>i. max 0 (level + real i * trend)) [1 ..< steps + 1])
      | _ \<Rightarrow> Inl ModelError)"

subsection \<open>\<open>AutoRegression\<close>\<close>

record auto_regression =
  ar_order :: nat
  ar_coefficients :: "real list"
  ar_intercept :: real
  ar_normalization :: "(real \<times> real) option"

definition new_auto_regression :: auto_regression where
  "new_auto_regression =
     \<lparr>ar_order = 3, ar_coefficients = [], ar_intercept = 0, ar_normalization = None\<rparr>"

text \<open>\<open>createLagMatrix\<close>: row \<open>i\<close> holds \<open>data[i-1], ..., data[i-order]\<close>, its target is \<open>data[i]\<close>.\<close>

definition createLagMatrix :: "nat \<Rightarrow> real list \<Rightarrow> real list list \<times> real list" where
  "createLagMatrix order data =
     (map (\<lambda>i. map (\<lambda>j. data ! (i - j)) [1 ..< order + 1]) [order ..< length data],
      map (\<lambda>i. data ! i) [order ..< length data])"

text \<open>The matrices \<open>X^T X\<close> (with the ridge term on the diagonal) and \<open>X^T y\<close>.\<close>

definition XTX :: "nat \<Rightarrow> real list list \<Rightarrow> real list list" where
  "XTX p X =
     map (\<lambda>i. map (\<lambda>j. sum_list (map (\<lambda>row. row ! i * row ! j) X) +
                         (if i = j then 1 / 1000000 else 0)) [0 ..< p]) [0 ..< p]"

definition XTy :: "nat \<Rightarrow> real list list \<Rightarrow> real list \<Rightarrow> real list" where
  "XTy p X y = map (\<lambda>i. sum_list (map (\<lambda>(row, yk). row ! i * yk) (zip X y))) [0 ..< p]"

text \<open>
  One round of the elimination on the augmented matrix, for column \<open>i\<close>: the search of
  the row with the largest entry, the exchange, the regularization of a small pivot, the
  in-place normalization of the row and the clearing of the column in the other rows.
\<close>

definition findMaxRow :: "nat \<Rightarrow> real list list \<Rightarrow> nat \<Rightarrow> nat" where
  "findMaxRow p aug i =
     fold (\<lambda>j maxRow. if \<bar>aug ! j ! i\<bar> > \<bar>aug ! maxRow ! i\<bar> then j else maxRow) [i + 1 ..< p] i"

definition swapRows :: "real list list \<Rightarrow> nat \<Rightarrow> nat \<Rightarrow> real list list" where
  "swapRows aug i maxRow =
     (if maxRow \<noteq> i then (aug[i := aug ! maxRow])[maxRow := aug ! i] else aug)"

definition regularizePivot :: "real list list \<Rightarrow> nat \<Rightarrow> real list list" where
  "regularizePivot aug i =
     (if \<bar>aug ! i ! i\<bar> < 1 / 10000000000
      then aug[i := (aug ! i)[i := aug ! i ! i + 1 / 100000]]
      else aug)"

definition normalizeRow :: "nat \<Rightarrow> nat \<Rightarrow> real list \<Rightarrow> real list" where
  "normalizeRow p i row = fold (\<lambda>j r. r[j := r ! j / r ! i]) [i ..< p + 1] row"

definition eliminateRow :: "nat \<Rightarrow> nat \<Rightarrow> real list \<Rightarrow> real list \<Rightarrow> real list" where
  "eliminateRow p i pivotRow row =
     (let factor = row ! i in
      fold (\<lambda>k r. r[k := r ! k - factor * pivotRow ! k]) [i ..< p + 1] row)"

definition eliminateColumn :: "nat \<Rightarrow> nat \<Rightarrow> real list list \<Rightarrow> real list list" where
  "eliminateColumn p i aug =
     fold (\<lambda>j a. if j \<noteq> i then a[j := eliminateRow p i (a ! i) (a ! j)] else a) [0 ..< p] aug"

definition gaussStep :: "nat \<Rightarrow> nat \<Rightarrow> real list list \<Rightarrow> real list list" where
  "gaussStep p i aug =
     (let aug1 = swapRows aug i (findMaxRow p aug i);
          aug2 = regularizePivot aug1 i;
          aug3 = aug2[i := normalizeRow p i (aug2 ! i)]
      in eliminateColumn p i aug3)"

definition gauss :: "nat \<Rightarrow> real list list \<Rightarrow> real list list" where
  "gauss p aug = fold (gaussStep p) [0 ..< p] aug"

text \<open>
  \<open>ordinaryLeastSquares\<close>: the solution vector, intercept first. With no rows, reading
  \<open>X_with_intercept[0].length\<close> raises a TypeError and so does the fallback in the
  \<open>catch\<close>, which reads \<open>X[0].length\<close>; nothing else in the \<open>try\<close> raises.
\<close>

definition ordinaryLeastSquares :: "real list list \<Rightarrow> real list \<Rightarrow> model_error + real list" where
  "ordinaryLeastSquares X y =
     (case X of
        [] \<Rightarrow> Inl ModelError
      | row0 # rows \<Rightarrow>
          (let X_with_intercept = map (\<lambda>row. 1 # row) X;
               p = length (1 # row0);
               augmentedMatrix =
                 map (\<lambda>(row, b). row @ [b]) (zip (XTX p X_with_intercept) (XTy p X_with_intercept y))
           in Inr (map (\<lambda>row. row ! p) (gauss p augmentedMatrix))))"

definition ar_adjusted_order :: "nat \<Rightarrow> real list \<Rightarrow> nat" where
  "ar_adjusted_order order data =
     (if length data \<le> order then max 1 (length data div 3) else order)"

definition normalization_of :: "real list \<Rightarrow> real \<times> real" where
  "normalization_of data =
     (let mean = sum_list data / real (length data);
          std = sqrt (sum_list (map (\<lambda>v. (v - mean)\<^sup>2) data) / real (length data));
          scaleFactor = (if std > 1 / 10000000000 then std else 1)
      in (mean, scaleFactor))"

text \<open>
  \<open>fit\<close>. When \<open>ordinaryLeastSquares\<close> throws, the order has already been adjusted and
  its \<open>catch\<close> has reset the intercept; the result \<open>Inl\<close> carries the model in that state.
\<close>

definition ar_fit :: "real list \<Rightarrow> auto_regression \<Rightarrow> auto_regression + auto_regression" where
  "ar_fit data m =
     (let order = ar_adjusted_order (ar_order m) data;
          (mean, scaleFactor) = normalization_of data;
          normalizedData = map (\<lambda>v. (v - mean) / scaleFactor) data;
          (X, y) = createLagMatrix order normalizedData
      in case ordinaryLeastSquares X y of
           Inl e \<Rightarrow> Inl (m\<lparr>ar_order := order, ar_intercept := 0\<rparr>)
         | Inr solution \<Rightarrow>
             Inr (m\<lparr>ar_order := order, ar_intercept := hd solution,
                    ar_coefficients := tl solution,
                    ar_normalization := Some (mean, scaleFactor)\<rparr>))"

text \<open>\<open>slice(-n)\<close>: the last \<open>n\<close> elements, and the whole array for \<open>n = 0\<close>.\<close>

definition slice_last :: "nat \<Rightarrow> 'a list \<Rightarrow> 'a list" where
  "slice_last n xs = (if n = 0 then xs else drop (length xs - n) xs)"

text \<open>
  The loop of \<open>AutoRegression.forecast\<close>. In every state that the constructor and \<open>fit\<close>
  produce, the coefficients are none or as many as the order, so the reads
  \<open>coefficients[j]\<close> and \<open>lastValues[j]\<close> for \<open>j < order\<close> are in range.
\<close>

fun ar_loop :: "auto_regression \<Rightarrow> nat \<Rightarrow> real list \<Rightarrow> real list" where
  "ar_loop m 0 lastValues = []"
| "ar_loop m (Suc steps) lastValues =
     (let prediction = ar_intercept m +
            sum_list (map (\<lambda>j. ar_coefficients m ! j * lastValues ! j) [0 ..< ar_order m]);
          lastValues' = prediction # butlast lastValues;
          denormalized = (case ar_normalization m of
                            Some (mean, std) \<Rightarrow> prediction * std + mean
                          | None \<Rightarrow> prediction)
      in max 0 denormalized # ar_loop m steps lastValues')"

definition ar_forecast :: "auto_regression \<Rightarrow> real list \<Rightarrow> nat \<Rightarrow> model_error + real list" where
  "ar_forecast m history steps =
     (if length (ar_coefficients m) = 0 then Inl ModelError
      else if length history < ar_order m then Inl ModelError
      else
        (let normalizedHistory =
               (case ar_normalization m of
                  Some (mean, std) \<Rightarrow> map (\<lambda>v. (v - mean) / std) history
                | None \<Rightarrow> history);
             lastValues = rev (slice_last (ar_order m) normalizedHistory)
         in Inr (ar_loop m steps lastValues)))"

subsection \<open>\<open>ModelEnsemble\<close>\<close>

record model_ensemble =
  linearRegression :: linear_regression
  exponentialSmoothing :: exponential_smoothing
  autoRegression :: auto_regression
  weight_lr :: real
  weight_es :: real
  weight_ar :: real

definition new_ensemble :: model_ensemble where
  "new_ensemble =
     \<lparr>linearRegression = new_linear_regression,
      exponentialSmoothing = new_exponential_smoothing,
      autoRegression = new_auto_regression,
      weight_lr = 3 / 10, weight_es = 3 / 10, weight_ar = 4 / 10\<rparr>"

definition weight_sum :: "model_ensemble \<Rightarrow> real" where
  "weight_sum e = weight_lr e + weight_es e + weight_ar e"

text \<open>The three \<open>try\<close> blocks of \<open>trainAll\<close>.\<close>

definition train_lr :: "real list \<Rightarrow> model_ensemble \<Rightarrow> model_ensemble" where
  "train_lr data e =
     (case lr_train (map real [0 ..< length data]) data (linearRegression e) of
        Inr m \<Rightarrow> e\<lparr>linearRegression := m\<rparr>
      | Inl err \<Rightarrow>
          e\<lparr>linearRegression :=
              \<lparr>lr_alpha = hd data, lr_beta = (last data - hd data) / real (length data),
               lr_trained = True\<rparr>\<rparr>)"

definition train_es :: "real list \<Rightarrow> model_ensemble \<Rightarrow> model_ensemble" where
  "train_es data e =
     (case es_fit data (exponentialSmoothing e) of
        Inr m \<Rightarrow> e\<lparr>exponentialSmoothing := m\<rparr>
      | Inl err \<Rightarrow>
          e\<lparr>weight_lr := weight_lr e + weight_es e / 2,
            weight_ar := weight_ar e + weight_es e / 2,
            weight_es := 0\<rparr>)"

definition train_ar :: "real list \<Rightarrow> model_ensemble \<Rightarrow> model_ensemble" where
  "train_ar data e =
     (case ar_fit data (autoRegression e) of
        Inr m \<Rightarrow> e\<lparr>autoRegression := m\<rparr>
      | Inl m \<Rightarrow>
          e\<lparr>autoRegression := m,
            weight_lr := weight_lr e + weight_ar e / 2,
            weight_es := weight_es e + weight_ar e / 2,
            weight_ar := 0\<rparr>)"

definition trainAll :: "real list \<Rightarrow> model_ensemble \<Rightarrow> model_error + model_ensemble" where
  "trainAll data e =
     (if length data < 10 then Inl ModelError
      else Inr (train_ar data (train_es data (train_lr data e))))"

text \<open>
  The three \<open>try\<close> blocks of \<open>forecast\<close>: the predictions of a model, or the empty array
  and the redistribution of its weight when it throws.
\<close>

definition predict_lr :: "real list \<Rightarrow> nat \<Rightarrow> model_ensemble \<Rightarrow> real list \<times> model_ensemble" where
  "predict_lr history steps e =
     (let lastX = real (length history) - 1;
          forecastX = map (\<lambda>i. lastX + real i + 1) [0 ..< steps]
      in case lr_predict (linearRegression e) forecastX of
           Inr linearPredictions \<Rightarrow> (linearPredictions, e)
         | Inl err \<Rightarrow>
             ([], e\<lparr>weight_es := weight_es e + weight_lr e / 2,
                    weight_ar := weight_ar e + weight_lr e / 2,
                    weight_lr := 0\<rparr>))"

definition predict_es :: "nat \<Rightarrow> model_ensemble \<Rightarrow> real list \<times> model_ensemble" where
  "predict_es steps e =
     (case es_forecast (exponentialSmoothing e) steps of
        Inr exponentialPredictions \<Rightarrow> (exponentialPredictions, e)
      | Inl err \<Rightarrow>
          ([], e\<lparr>weight_lr := weight_lr e + weight_es e / 2,
                 weight_ar := weight_ar e + weight_es e / 2,
                 weight_es := 0\<rparr>))"

definition predict_ar :: "real list \<Rightarrow> nat \<Rightarrow> model_ensemble \<Rightarrow> real list \<times> model_ensemble" where
  "predict_ar history steps e =
     (case ar_forecast (autoRegression e) history steps of
        Inr autoPredictions \<Rightarrow> (autoPredictions, e)
      | Inl err \<Rightarrow>
          ([], e\<lparr>weight_lr := weight_lr e + weight_ar e / 2,
                 weight_es := weight_es e + weight_ar e / 2,
                 weight_ar := 0\<rparr>))"

text \<open>The check of the weight sum, with the normalization of the weights.\<close>

definition normalizeWeights :: "model_ensemble \<Rightarrow> model_ensemble" where
  "normalizeWeights e =
     (let sumWeights = weight_sum e in
      if \<bar>sumWeights - 1\<bar> > 1 / 1000 then
        e\<lparr>weight_lr := weight_lr e / sumWeights, weight_es := weight_es e / sumWeights,
          weight_ar := weight_ar e / sumWeights\<rparr>
      else e)"

text \<open>
  A forecast value is a number or NaN (\<open>None\<close>), which arises only from an empty
  history: as the mean of no values and as \<open>Math.max(0, undefined)\<close>.
\<close>

definition combine ::
  "model_ensemble \<Rightarrow> real list \<Rightarrow> real list \<Rightarrow> real list \<Rightarrow> real list \<Rightarrow> nat \<Rightarrow> real option" where
  "combine e history linearPredictions exponentialPredictions autoPredictions i =
     (let parts =
            (if weight_lr e > 0 \<and> i < length linearPredictions
             then [(weight_lr e * linearPredictions ! i, weight_lr e)] else []) @
            (if weight_es e > 0 \<and> i < length exponentialPredictions
             then [(weight_es e * exponentialPredictions ! i, weight_es e)] else []) @
            (if weight_ar e > 0 \<and> i < length autoPredictions
             then [(weight_ar e * autoPredictions ! i, weight_ar e)] else []);
          weightedSum = sum_list (map fst parts);
          usedWeightSum = sum_list (map snd parts)
      in if usedWeightSum > 0 then Some (max 0 (weightedSum / usedWeightSum))
         else if history = [] then None
         else Some (max 0 (last history)))"

definition forecast :: "real list \<Rightarrow> nat \<Rightarrow> model_ensemble \<Rightarrow> real option list \<times> model_ensemble" where
  "forecast history steps e0 =
     (let (linearPredictions, e1) = predict_lr history steps e0;
          (exponentialPredictions, e2) = predict_es steps e1;
          (autoPredictions, e3) = predict_ar history steps e2
      in if weight_sum e3 < 1 / 1000 then
           (let lastValues = slice_last 5 history;
                avgValue = (if lastValues = [] then None
                            else Some (sum_list lastValues / real (length lastValues)))
            in (replicate steps avgValue, e3))
         else
           (let e4 = normalizeWeights e3 in
            (map (combine e4 history linearPredictions exponentialPredictions autoPredictions)
               [0 ..< steps], e4)))"

subsection \<open>The ensemble on a constant history\<close>

text \<open>
  The augmented matrix has \<open>p\<close> rows of \<open>p + 1\<close> entries and its last column, the right-hand
  side of the normal equations, is zero.
\<close>

definition rhs_zero :: "nat \<Rightarrow> real list list \<Rightarrow> bool" where
  "rhs_zero p aug \<longleftrightarrow> length aug = p \<and> (\<forall>row \<in> set aug. length row = Suc p \<and> row ! p = 0)"

text \<open>The state of the ensemble after \<open>trainAll\<close> on thirty prices of 100.\<close>

definition trained_flat :: model_ensemble where
  "trained_flat =
     \<lparr>linearRegression = \<lparr>lr_alpha = 100, lr_beta = 0, lr_trained = True\<rparr>,
      exponentialSmoothing =
        \<lparr>es_alpha = 3 / 10, es_beta = 1 / 10, es_level = Some 100, es_trend = Some 0\<rparr>,
      autoRegression =
        \<lparr>ar_order = 3, ar_coefficients = [0, 0, 0], ar_intercept = 0,
         ar_normalization = Some (100, 1)\<rparr>,
      weight_lr = 3 / 10, weight_es = 3 / 10, weight_ar = 4 / 10\<rparr>"

section \<open>Properties of the market processor\<close>

lemma checkChange_total: "\<exists>as. checkChange kind th cid now prev cur = Inr as"
  by (cases prev; cases cur) (simp_all add: checkChange_def checked_div_def Let_def)

lemma checkChange_kind:
  "checkChange kind th cid now prev cur = Inr as \<Longrightarrow> a \<in> set as \<Longrightarrow>
     an_anomaly_type a = kind \<and> truthy prev \<and> truthy cur"
  by (cases prev; cases cur)
     (auto simp: checkChange_def checked_div_def Let_def split: if_splits)

text \<open>
  C10. \<open>detectAnomalies\<close> never divides by zero: it always returns a list of anomalies
  (never the zero-divisor outcome), a price anomaly in the list implies that the stored
  previous price and the incoming price are truthy, likewise for the volume; so when the
  previous price (volume) is zero or missing, no price (volume) anomaly is emitted.
\<close>

theorem detectAnomalies_never_divides_by_zero:
  "\<exists>as. detectAnomalies dp now c = Inr as \<and>
     (\<forall>a \<in> set as.
        (an_anomaly_type a = ''price'' \<longrightarrow>
           prev_usable dp c pv_price \<and> truthy (current_price c)) \<and>
        (an_anomaly_type a = ''volume'' \<longrightarrow>
           prev_usable dp c pv_volume \<and> truthy (total_volume c))) \<and>
     (\<not> prev_usable dp c pv_price \<longrightarrow> (\<forall>a \<in> set as. an_anomaly_type a \<noteq> ''price'')) \<and>
     (\<not> prev_usable dp c pv_volume \<longrightarrow> (\<forall>a \<in> set as. an_anomaly_type a \<noteq> ''volume''))"
proof (cases "previousValues dp (coin_id c)")
  case None
  then show ?thesis by (simp add: detectAnomalies_def)
next
  case (Some pv)
  obtain ps where ps: "checkChange ''price'' (dp_priceThreshold dp) (coin_id c) now
      (pv_price pv) (current_price c) = Inr ps"
    using checkChange_total by blast
  obtain vs where vs: "checkChange ''volume'' (dp_volumeThreshold dp) (coin_id c) now
      (pv_volume pv) (total_volume c) = Inr vs"
    using checkChange_total by blast
  have res: "detectAnomalies dp now c = Inr (ps @ vs)"
    by (simp add: detectAnomalies_def Some ps vs)
  have p: "\<And>a. a \<in> set ps \<Longrightarrow>
      an_anomaly_type a = ''price'' \<and> truthy (pv_price pv) \<and> truthy (current_price c)"
    using checkChange_kind [OF ps] by blast
  have v: "\<And>a. a \<in> set vs \<Longrightarrow>
      an_anomaly_type a = ''volume'' \<and> truthy (pv_volume pv) \<and> truthy (total_volume c)"
    using checkChange_kind [OF vs] by blast
  show ?thesis
    unfolding res using p v by (auto simp: prev_usable_def Some)
qed

theorem detectAnomalies_never_divides_by_zero_witness:
  "detectAnomalies example_processor 1 example_coin =
     Inr [\<lparr>an_crypto_id = ''bitcoin'', an_anomaly_type = ''price'', an_old_value = 100,
           an_new_value = 106, an_percentage_change = 6, an_timestamp = 1\<rparr>] \<and>
   prev_usable example_processor example_coin pv_price \<and>
   truthy (current_price example_coin) \<and>
   \<not> prev_usable example_processor example_coin pv_volume"
  using detectAnomalies_never_divides_by_zero [of example_processor 1 example_coin]
  by (simp add: detectAnomalies_def checkChange_def checked_div_def prev_usable_def
      example_processor_def example_coin_def)

section \<open>Properties of the indicator engine\<close>









text \<open>
  C5. The MACD vote of \<open>interpretIndicators\<close> does not come from the crossover signal.
  For a history whose MACD line stays above the signal line over the last two
  observations, \<open>calculateMACD\<close> reports no crossover (\<open>neutral\<close>), yet the interpretation
  of the stored indicators counts a MACD buy vote. For a history with an upward crossing,
  \<open>calculateMACD\<close> reports \<open>buy\<close>, yet the interpretation of the calculated object casts
  no MACD vote at all.
\<close>

theorem interpretIndicators_macd_vote_ignores_crossover:
  "mr_signal (calculateMACD default_settings rising_library prices) = ''neutral'' \<and>
   map_option (\<lambda>i. (map_option mi_signal (in_macd i), ov_buySignals (in_overall i)))
     (interpretStored default_settings rising_library 1000 ''bitcoin'' [JNum 1])
     = Some (Some ''buy'', 1) \<and>
   mr_signal (calculateMACD default_settings crossing_library prices) = ''buy'' \<and>
   map_option (\<lambda>i. (map_option mi_signal (in_macd i), ov_buySignals (in_overall i)))
     (interpretCalculated default_settings crossing_library 1000 ''bitcoin'' [JNum 1])
     = Some (None, 0)"
  by (simp add: calculateMACD_def macdCrossover_def rising_library_def crossing_library_def
      default_settings_def js_gt_def js_lt_def js_le_def js_ge_def Let_def
      interpretStored_def interpretCalculated_def calculateIndicators_def
      saveIndicators_def db_transaction_def indicatorQueries_def smaQueries_def
      rsiQueries_def rsiQuery_def macdQueries_def calculateSMA_def calculateRSI_def
      getLatestIndicators_def db_get_latest_def db_get_latest_sma_def stored_def
      view_of_latest_def view_of_results_def interpretIndicators_def interpretSMA_def
      interpretRSI_def interpretMACD_def interpretHistogram_def countVotes_def overall_def
      vote_def no_votes_def)

section \<open>Properties of the alert service\<close>


lemma Date_now_simps [simp]:
  "fst (Date_now w) = w_clock w (w_reads w)"
  "w_reads (snd (Date_now w)) = Suc (w_reads w)"
  "w_clock (snd (Date_now w)) = w_clock w"
  "w_db_ok (snd (Date_now w)) = w_db_ok w"
  "w_db_calls (snd (Date_now w)) = w_db_calls w"
  "w_cryptocurrencies (snd (Date_now w)) = w_cryptocurrencies w"
  "w_alerts (snd (Date_now w)) = w_alerts w"
  by (simp_all add: Date_now_def)

lemma same_env_refl [simp]: "same_env w w"
  by (simp add: same_env_def)


lemma same_env_Date_now [simp]: "same_env w (snd (Date_now w))"
  by (simp add: same_env_def)


lemma same_env_saveAlert: "same_env w (snd (saveAlert w a))"
  by (simp add: same_env_def saveAlert_def db_run_insert_alert_def)

lemma same_env_cleanup: "same_env w (snd (cleanupSentAlerts svc w))"
  by (simp add: cleanupSentAlerts_def Let_def split_beta)







lemma kept_refl [simp]: "kept k e st st"
  by (simp add: kept_def)










lemma br_state_case:
  "(case r of Thrown svc' w' \<Rightarrow> (f svc' w', svc', w') | Done alerts svc' w' \<Rightarrow> (g alerts, svc', w'))
     = (fst (case r of Thrown svc' w' \<Rightarrow> (f svc' w', svc', w') | Done alerts svc' w' \<Rightarrow> (g alerts, svc', w')), br_state r)"
  by (cases r) simp_all


















text \<open>
  The anomaly path prunes: when \<open>createAlertFromAnomaly\<close> has returned an alert, no entry
  of the recently-sent set is older than one hour at the last reading of the clock.
\<close>

lemma createAlertFromAnomaly_prunes:
  assumes "createAlertFromAnomaly svc w a = (Some alert, svc', w')"
  shows "\<forall>(k, e) \<in> set (sentAlerts svc'). \<not> stale (w_clock w (w_reads w' - 1)) e"
  using assms unfolding createAlertFromAnomaly_def
  by (auto simp: Let_def split_beta db_get_crypto_def saveAlert_def db_run_insert_alert_def
      cleanupSentAlerts_def Date_now_def stale_def
      split: sum.splits option.splits prod.splits if_splits)


text \<open>
  C7. The indicator path does not prune. With an entry inserted at time 0 in the
  recently-sent set and the clock two hours later, \<open>processIndicators\<close> creates two
  alerts and inserts their keys, and the entry of time 0 is still in the set when it
  returns, although it is more than one hour old.
\<close>

theorem processIndicators_does_not_prune:
  "(case processIndicators stale_service late_world ''bitcoin'' (Some overbought_view)
           (interpretIndicators default_settings (Some overbought_view)) of
      (alerts, svc', w') \<Rightarrow>
        map al_alert_type alerts = [''rsi_overbought'', ''strong_sell_signal''] \<and>
        map fst (sentAlerts svc') =
          [''ethereum-price-0'', ''bitcoin-rsi-overbought-2'', ''bitcoin-overall-sell-2''] \<and>
        map_of (sentAlerts svc') ''ethereum-price-0'' = Some old_entry \<and>
        w_clock w' (w_reads w' - 1) = 7200006 \<and>
        stale (w_clock w' (w_reads w' - 1)) old_entry)"
  by (simp add: processIndicators_def stale_service_def late_world_def overbought_view_def
      interpretIndicators_def interpretSMA_def interpretRSI_def interpretMACD_def
      countVotes_def overall_def vote_def no_votes_def default_settings_def
      js_ge_def js_le_def db_get_crypto_def Date_now_def and_then_def rsiBlock_def
      macdBlock_def smaBlock_def overallBlock_def indicatorAlert_def has_def
      saveAlert_def db_run_insert_alert_def show_nat.simps stale_def old_entry_def Let_def)

section \<open>Properties of the fetch client\<close>


lemma apiCallFn_env [simp]:
  "fe_requests (snd (apiCallFn path s e)) = fe_requests e @ [getApiUrl s @ path]"
  "fe_sleeps (snd (apiCallFn path s e)) = fe_sleeps e"
  "fe_events (snd (apiCallFn path s e)) = fe_events e"
  "fst (apiCallFn path s e) = fe_responses e (length (fe_requests e))"
  by (simp_all add: apiCallFn_def)

text \<open>The four ways through one round of the loop of \<open>executeWithRetry\<close>.\<close>

lemma retry_exit:
  "\<not> rc \<le> maxRetries (retryConfig s) \<Longrightarrow>
     executeWithRetry_loop path key rc lastE s e = (Inl lastE, s, e)"
  by (subst executeWithRetry_loop.simps) simp

lemma retry_success:
  assumes "rc \<le> maxRetries (retryConfig s)"
    and "apiCallFn path s e = (Resolved (Some result), e1)"
  shows "executeWithRetry_loop path key rc lastE s e =
           (let s1 = incrementRequestCount s in
            if storesResult (the_cache s1) key then
              (Inr result,
               s1\<lparr>the_cache := cacheStore (the_cache s1) key result (fst (clock_read e1))\<rparr>,
               snd (clock_read e1))
            else (Inr result, s1, e1))"
  using assms by (subst executeWithRetry_loop.simps) (simp add: Let_def split_beta)

lemma retry_stop:
  assumes "rc \<le> maxRetries (retryConfig s)"
    and "apiCallFn path s e = (resp, e1)"
    and "\<forall>result. resp \<noteq> Resolved (Some result)"
    and "status_of resp = Some 404 \<or> rc + 1 > maxRetries (retryConfig s)"
  shows "executeWithRetry_loop path key rc lastE s e = (Inl (Some (error_of resp)), s, e1)"
proof (cases resp)
  case (Resolved x)
  with assms(3) have "x = None" by (cases x) auto
  with assms Resolved show ?thesis
    by (subst executeWithRetry_loop.simps) simp
next
  case (Rejected st)
  with assms show ?thesis
    by (subst executeWithRetry_loop.simps) auto
qed

lemma retry_again:
  assumes "rc \<le> maxRetries (retryConfig s)"
    and "apiCallFn path s e = (resp, e1)"
    and "\<forall>result. resp \<noteq> Resolved (Some result)"
    and "status_of resp \<noteq> Some 404" "\<not> rc + 1 > maxRetries (retryConfig s)"
  shows "executeWithRetry_loop path key rc lastE s e =
           executeWithRetry_loop path key (rc + 1) (Some (error_of resp)) s
             (sleep (baseDelay (retryConfig s) * backoffFactor (retryConfig s) ^ rc) e1)"
proof (cases resp)
  case (Resolved x)
  with assms(3) have "x = None" by (cases x) auto
  with assms Resolved show ?thesis
    by (subst executeWithRetry_loop.simps) simp
next
  case (Rejected st)
  with assms show ?thesis
    by (subst executeWithRetry_loop.simps) simp
qed


text \<open>What a run of the loop from attempt \<open>rc\<close> adds to the trace.\<close>

lemma retry_loop_trace:
  "executeWithRetry_loop path key rc lastE s e = (r, s', e') \<Longrightarrow>
     currentProxyIndex s' = currentProxyIndex s \<and> baseUrl s' = baseUrl s \<and>
     (\<exists>n. fe_requests e' = fe_requests e @ replicate n (getApiUrl s @ path) \<and>
          n \<le> Suc (maxRetries (retryConfig s)) - rc \<and>
          (rc \<le> maxRetries (retryConfig s) \<longrightarrow> 1 \<le> n) \<and>
          fe_sleeps e' = fe_sleeps e @
            map (\<lambda>k. baseDelay (retryConfig s) * backoffFactor (retryConfig s) ^ (k - 1))
              [rc + 1 ..< rc + n])"
proof (induction "Suc (maxRetries (retryConfig s)) - rc" arbitrary: rc lastE e)
  case 0
  then have nle: "\<not> rc \<le> maxRetries (retryConfig s)" by simp
  from retry_exit [OF this] "0.prems" have "s' = s" "e' = e" by simp_all
  with nle show ?case by (auto intro!: exI [of _ 0])
next
  case (Suc m)
  then have le: "rc \<le> maxRetries (retryConfig s)" by simp
  obtain resp e1 where call: "apiCallFn path s e = (resp, e1)" by (cases "apiCallFn path s e")
  have req1: "fe_requests e1 = fe_requests e @ [getApiUrl s @ path]"
    and sl1: "fe_sleeps e1 = fe_sleeps e"
    using apiCallFn_env [of path s e] call by simp_all
  consider (ok) result where "resp = Resolved (Some result)"
    | (stop) "\<forall>result. resp \<noteq> Resolved (Some result)"
        "status_of resp = Some 404 \<or> rc + 1 > maxRetries (retryConfig s)"
    | (again) "\<forall>result. resp \<noteq> Resolved (Some result)"
        "status_of resp \<noteq> Some 404" "\<not> rc + 1 > maxRetries (retryConfig s)"
    by blast
  then show ?case
  proof cases
    case ok
    from retry_success [OF le call [unfolded ok]] Suc.prems
    have "currentProxyIndex s' = currentProxyIndex s \<and> baseUrl s' = baseUrl s \<and>
          fe_requests e' = fe_requests e1 \<and> fe_sleeps e' = fe_sleeps e1"
      by (auto simp: Let_def incrementRequestCount_def clock_read_def split: if_splits)
    with req1 sl1 le show ?thesis by (auto intro!: exI [of _ 1])
  next
    case stop
    from retry_stop [OF le call stop] Suc.prems have "s' = s" "e' = e1" by simp_all
    with req1 sl1 le show ?thesis by (auto intro!: exI [of _ 1])
  next
    case again
    let ?e2 = "sleep (baseDelay (retryConfig s) * backoffFactor (retryConfig s) ^ rc) e1"
    have rec: "executeWithRetry_loop path key (rc + 1) (Some (error_of resp)) s ?e2 = (r, s', e')"
      using retry_again [OF le call again] Suc.prems by simp
    have m: "m = Suc (maxRetries (retryConfig s)) - (rc + 1)" using Suc.hyps(2) by simp
    from Suc.hyps(1) [OF m rec] obtain n where
      idx: "currentProxyIndex s' = currentProxyIndex s" "baseUrl s' = baseUrl s"
      and rq: "fe_requests e' = fe_requests ?e2 @ replicate n (getApiUrl s @ path)"
      and nle: "n \<le> Suc (maxRetries (retryConfig s)) - (rc + 1)"
      and pos: "rc + 1 \<le> maxRetries (retryConfig s) \<longrightarrow> 1 \<le> n"
      and sl: "fe_sleeps e' = fe_sleeps ?e2 @
            map (\<lambda>k. baseDelay (retryConfig s) * backoffFactor (retryConfig s) ^ (k - 1))
              [rc + 1 + 1 ..< rc + 1 + n]"
      by blast
    have rq': "fe_requests e' = fe_requests e @ replicate (Suc n) (getApiUrl s @ path)"
      using rq req1 by (simp add: sleep_def replicate_app_Cons_same)
    have "1 \<le> n" using pos again(3) by simp
    then have "[rc + 1 ..< rc + Suc n] = (rc + 1) # [rc + 1 + 1 ..< rc + 1 + n]"
      by (simp add: upt_rec)
    then have sl': "fe_sleeps e' = fe_sleeps e @
            map (\<lambda>k. baseDelay (retryConfig s) * backoffFactor (retryConfig s) ^ (k - 1))
              [rc + 1 ..< rc + Suc n]"
      using sl sl1 by (simp add: sleep_def)
    from idx rq' sl' nle le show ?thesis by (intro conjI exI [of _ "Suc n"]) simp_all
  qed
qed


text \<open>The delays of \<open>executeWithRetry\<close>: before retry \<open>k\<close> it sleeps
  \<open>baseDelay * backoffFactor ^ (k - 1)\<close>, and it makes at most \<open>maxRetries\<close> retries.\<close>

lemma executeWithRetry_backoff:
  assumes "executeWithRetry path key s e = (r, s', e')"
  shows "\<exists>n. 1 \<le> n \<and> n \<le> Suc (maxRetries (retryConfig s)) \<and>
           fe_requests e' = fe_requests e @ replicate n (getApiUrl s @ path) \<and>
           fe_sleeps e' = fe_sleeps e @
             map (\<lambda>k. baseDelay (retryConfig s) * backoffFactor (retryConfig s) ^ (k - 1)) [1 ..< n]"
  using retry_loop_trace [OF assms [unfolded executeWithRetry_def]] by auto

text \<open>An error with status 404 is not retried.\<close>

lemma executeWithRetry_404:
  assumes "fe_responses e (length (fe_requests e)) = Rejected (Some 404)"
  shows "executeWithRetry path key s e =
           (Inl (Some (ApiError (Some 404))), s, snd (apiCallFn path s e))"
proof -
  have call: "apiCallFn path s e = (Rejected (Some 404), snd (apiCallFn path s e))"
    using assms by (simp add: apiCallFn_def)
  show ?thesis
    unfolding executeWithRetry_def
    using retry_stop [OF _ call, of 0 key None] by simp
qed

text \<open>
  C3. \<open>executeWithRetry\<close> does not fail over. With the provider list in use (no
  configured base URL), a first attempt that fails with status 429 (or 403) and a second
  that succeeds: the client sleeps the first backoff delay, 2000, and sends the second
  request to the same endpoint URL as the first; the proxy index stays 0.
\<close>

theorem executeWithRetry_no_failover:
  "(case executeWithRetry ''/coins/markets'' (Key ''marketData'') (new_service None 0)
           (limited_env 429) of
      (r, s', e') \<Rightarrow>
        r = Inr (JArray [JCoin ''bitcoin'']) \<and>
        fe_requests e' = [''https://api.coingecko.com/api/v3/coins/markets'',
                          ''https://api.coingecko.com/api/v3/coins/markets''] \<and>
        fe_sleeps e' = [2000] \<and> currentProxyIndex s' = 0) \<and>
   (case executeWithRetry ''/coins/markets'' (Key ''marketData'') (new_service None 0)
           (limited_env 403) of
      (r, s', e') \<Rightarrow>
        r = Inr (JArray [JCoin ''bitcoin'']) \<and>
        fe_requests e' = [''https://api.coingecko.com/api/v3/coins/markets'',
                          ''https://api.coingecko.com/api/v3/coins/markets''] \<and>
        fe_sleeps e' = [2000] \<and> currentProxyIndex s' = 0)"
  by (simp add: executeWithRetry_def executeWithRetry_loop.simps new_service_def
      limited_env_def apiCallFn_def getApiUrl_def API_PROXIES_def sleep_def
      incrementRequestCount_def storesResult_def cacheLookup_def cacheStore_def
      clock_read_def Let_def)


lemma cacheLookup_NoSlot:
  "cacheLookup c key = NoSlot \<longleftrightarrow> \<not> names_cache_property key"
  by (cases key) (auto simp: cacheLookup_def names_cache_property_def)

lemma executeApiCall_NoSlot:
  "\<not> names_cache_property key \<Longrightarrow>
     executeApiCall path key s e = (Threw (Some TypeError), s, snd (clock_read e))"
  using cacheLookup_NoSlot [of "the_cache s" key]
  by (simp add: executeApiCall_def Let_def split_beta)

lemma detailedStep_no_request:
  "fst (snd (detailedStep now coinId acc s e)) = s \<and>
   fe_requests (snd (snd (detailedStep now coinId acc s e))) = fe_requests e \<and>
   fst (detailedStep now coinId acc s e) \<noteq> Pending"
proof -
  have call: "\<And>p. executeApiCall p Omitted s e = (Threw (Some TypeError), s, snd (clock_read e))"
    by (rule executeApiCall_NoSlot) (simp add: names_cache_property_def)
  show ?thesis
    by (auto simp: detailedStep_def call Let_def sleep_def clock_read_def
        split: option.splits json.splits bool.splits)
qed

lemma detailedLoop_no_request:
  "fst (snd (detailedLoop now topCoins acc s e)) = s \<and>
   fe_requests (snd (snd (detailedLoop now topCoins acc s e))) = fe_requests e \<and>
   fst (detailedLoop now topCoins acc s e) \<noteq> Pending"
proof (induction topCoins arbitrary: acc e)
  case Nil
  then show ?case by simp
next
  case (Cons coinId topCoins)
  obtain r s1 e1 where step: "detailedStep now coinId acc s e = (r, s1, e1)"
    by (cases "detailedStep now coinId acc s e")
  with detailedStep_no_request [of now coinId acc s e]
  have s1: "s1 = s" "fe_requests e1 = fe_requests e" "r \<noteq> Pending" by simp_all
  show ?case
  proof (cases r)
    case (Returned acc')
    with step s1 Cons.IH [of acc' e1] show ?thesis by simp
  next
    case (Threw err)
    with step s1 show ?thesis by simp
  next
    case Pending
    with s1 show ?thesis by simp
  qed
qed


text \<open>
  C8, as amended. A call of \<open>executeApiCall\<close> whose cache key is omitted, or names no
  property of the cache object (neither one of its three own properties nor an inherited
  one), throws a TypeError after reading the clock: the service, with its rate limiter and
  queue, is unchanged and no provider call is made. Hence \<open>getCoinById\<close> returns a
  cached coin or throws the TypeError; \<open>fetchHistoricalData\<close> returns a fresh cached
  entry, or emits the error event and returns the cached entry of the key or \<open>null\<close>;
  and the loop of \<open>fetchDetailedData\<close> issues no provider request, leaves the service
  unchanged and is never suspended.
\<close>

theorem executeApiCall_without_cache_entry:
  "(\<not> names_cache_property cacheKey \<longrightarrow>
      executeApiCall path cacheKey s e = (Threw (Some TypeError), s, snd (clock_read e))) \<and>
   getCoinById coinId s e =
     (case cached_coin (marketData (the_cache s)) coinId of
        Some cachedCoin \<Rightarrow> (Returned cachedCoin, s, e)
      | None \<Rightarrow>
          (case cached_coin (detailedData (the_cache s)) coinId of
             Some cachedDetailedCoin \<Rightarrow> (Returned cachedDetailedCoin, s, e)
           | None \<Rightarrow> (Threw (Some TypeError), s, snd (clock_read e)))) \<and>
   fetchHistoricalData coinId days s e =
     (case historical_hit (historical_key coinId days) (historical_init s) e of
        (Some d, e1) \<Rightarrow> (Returned (Some d), historical_init s, e1)
      | (None, e1) \<Rightarrow>
          (Returned (historical_entry (the_cache (historical_init s)) (historical_key coinId days)),
           historical_init s, emit ErrorEvent (snd (clock_read e1)))) \<and>
   fst (snd (detailedLoop now topCoins acc s e)) = s \<and>
   fe_requests (snd (snd (detailedLoop now topCoins acc s e))) = fe_requests e \<and>
   fst (detailedLoop now topCoins acc s e) \<noteq> Pending"
proof -
  have call: "\<And>p s e. executeApiCall p Omitted s e = (Threw (Some TypeError), s, snd (clock_read e))"
    by (rule executeApiCall_NoSlot) (simp add: names_cache_property_def)
  have a: "\<not> names_cache_property cacheKey \<longrightarrow>
      executeApiCall path cacheKey s e = (Threw (Some TypeError), s, snd (clock_read e))"
    by (simp add: executeApiCall_NoSlot)
  have b: "getCoinById coinId s e =
     (case cached_coin (marketData (the_cache s)) coinId of
        Some cachedCoin \<Rightarrow> (Returned cachedCoin, s, e)
      | None \<Rightarrow>
          (case cached_coin (detailedData (the_cache s)) coinId of
             Some cachedDetailedCoin \<Rightarrow> (Returned cachedDetailedCoin, s, e)
           | None \<Rightarrow> (Threw (Some TypeError), s, snd (clock_read e))))"
    by (simp add: getCoinById_def call split: option.splits)
  have c: "fetchHistoricalData coinId days s e =
     (case historical_hit (historical_key coinId days) (historical_init s) e of
        (Some d, e1) \<Rightarrow> (Returned (Some d), historical_init s, e1)
      | (None, e1) \<Rightarrow>
          (Returned (historical_entry (the_cache (historical_init s)) (historical_key coinId days)),
           historical_init s, emit ErrorEvent (snd (clock_read e1))))"
    by (simp add: fetchHistoricalData_def call historical_fallback_def Let_def
        split: prod.splits option.splits)
  from a b c detailedLoop_no_request [of now topCoins acc s e] show ?thesis by blast
qed

theorem executeApiCall_without_cache_entry_witness:
  "\<not> names_cache_property Omitted \<and>
   executeApiCall ''/coins/bitcoin'' Omitted (new_service None 0) (limited_env 429) =
     (Threw (Some TypeError), new_service None 0, snd (clock_read (limited_env 429))) \<and>
   fe_requests (snd (clock_read (limited_env 429))) = []"
  using executeApiCall_without_cache_entry [of Omitted "''/coins/bitcoin''" "new_service None 0"
      "limited_env 429"]
  by (simp add: names_cache_property_def clock_read_def limited_env_def)

text \<open>
  C8 as stated fails for a key that is not an own property of the cache object but an
  inherited one: with \<open>'constructor'\<close> the lookup yields the inherited member, no
  TypeError is thrown and the provider is called (here it answers 404).
\<close>

theorem executeApiCall_inherited_name_counterexample:
  "Key ''constructor'' \<notin> {Key ''marketData'', Key ''detailedData'', Key ''historicalData''} \<and>
   (case executeApiCall ''/coins/bitcoin'' (Key ''constructor'') (new_service None 0)
           (failing_env 404) of
      (r, s', e') \<Rightarrow>
        r = Threw (Some (ApiError (Some 404))) \<and>
        fe_requests e' = [''https://api.coingecko.com/api/v3/coins/bitcoin''])"
  by (simp add: executeApiCall_def cacheLookup_def objectPrototypeProps_def fresh_def
      canMakeRequest_def new_service_def failing_env_def clock_read_def Let_def
      executeWithRetry_def executeWithRetry_loop.simps apiCallFn_def getApiUrl_def
      API_PROXIES_def)

section \<open>Properties of the correlation engine\<close>










text \<open>The degenerate cases of the coefficient.\<close>

lemma pearson_degenerate:
  assumes "alignTimeSeries series1 series2 = (prices1, prices2)"
    and "length prices1 < 2 \<or> denominator1 prices1 prices2 = 0 \<or> denominator2 prices1 prices2 = 0"
  shows "calculatePearsonCorrelation series1 series2 = 0"
  using assms by (auto simp: calculatePearsonCorrelation_def)













text \<open>The entries of the matrix after the loops.\<close>

lemma entry_ensure_row [simp]: "entry (ensure_row m c) a b = entry m a b"
  by (auto simp: entry_def ensure_row_def map_add_def split: option.splits)

lemma has_row_ensure_row [simp]: "has_row (ensure_row m c) a \<longleftrightarrow> has_row m a \<or> a = c"
  by (auto simp: has_row_def ensure_row_def map_add_def split: option.splits)


lemma has_row_set_entry [simp]: "has_row (set_entry m a b v) c \<longleftrightarrow> has_row m c"
  by (auto simp: set_entry_def has_row_def map_of_map_entry split: option.splits)












lemma example_align:
  "alignTimeSeries [(1000, 100), (2000, 110), (3000, 120)] [(1000, 1), (2000, 1), (3000, 1)] =
     ([100, 110, 120], [1, 1, 1])"
  "alignTimeSeries [(1000, 100), (2000, 110), (3000, 120)] [(1000, 10), (2000, 11), (3000, 12)] =
     ([100, 110, 120], [10, 11, 12])"
  by (simp_all add: alignTimeSeries_def js_Map_def List.map_filter_simps Let_def)




text \<open>Two series that move together have the coefficient 1.\<close>

lemma example_moving_together:
  "calculatePearsonCorrelation [(1000, 100), (2000, 110), (3000, 120)] [(1000, 10), (2000, 11), (3000, 12)] = 1"
proof -
  have "sqrt 200 * sqrt 2 = sqrt (20\<^sup>2)" by (simp add: real_sqrt_mult [symmetric])
  then have s: "sqrt 200 * sqrt 2 = 20" by simp
  show ?thesis
    by (simp add: calculatePearsonCorrelation_def example_align numerator_def
        denominator1_def denominator2_def diffs_def s toFixed4_def)
qed

section \<open>Properties of the forecast ensemble\<close>

subsection \<open>The weights\<close>

lemma train_lr_weights: "weight_sum (train_lr data e) = weight_sum e"
  by (simp add: train_lr_def weight_sum_def split: sum.splits)

lemma train_es_weights: "weight_sum (train_es data e) = weight_sum e"
  by (simp add: train_es_def weight_sum_def split: sum.splits)

lemma train_ar_weights: "weight_sum (train_ar data e) = weight_sum e"
  by (simp add: train_ar_def weight_sum_def split: sum.splits)

lemma predict_lr_weights: "weight_sum (snd (predict_lr history steps e)) = weight_sum e"
  by (simp add: predict_lr_def weight_sum_def Let_def split: sum.splits)

lemma predict_es_weights: "weight_sum (snd (predict_es steps e)) = weight_sum e"
  by (simp add: predict_es_def weight_sum_def split: sum.splits)

lemma predict_ar_weights: "weight_sum (snd (predict_ar history steps e)) = weight_sum e"
  by (simp add: predict_ar_def weight_sum_def split: sum.splits)

lemma normalizeWeights_one: "weight_sum e = 1 \<Longrightarrow> normalizeWeights e = e"
  by (simp add: normalizeWeights_def)

lemma trainAll_weights:
  assumes "trainAll data e = Inr e1"
  shows "weight_sum e1 = weight_sum e"
  using assms
  by (auto simp: trainAll_def train_lr_weights train_es_weights train_ar_weights split: if_splits)

lemma forecast_weights:
  assumes "weight_sum e = 1"
  shows "weight_sum (snd (forecast history steps e)) = 1"
proof -
  let ?e1 = "snd (predict_lr history steps e)"
  let ?e2 = "snd (predict_es steps ?e1)"
  let ?e3 = "snd (predict_ar history steps ?e2)"
  have s3: "weight_sum ?e3 = 1"
    using assms by (simp add: predict_lr_weights predict_es_weights predict_ar_weights)
  have "snd (forecast history steps e) = normalizeWeights ?e3"
    using s3 by (simp add: forecast_def Let_def split_beta)
  then show ?thesis using s3 by (simp add: normalizeWeights_one)
qed

lemma new_ensemble_weights: "weight_sum new_ensemble = 1"
  by (simp add: weight_sum_def new_ensemble_def)

text \<open>Without training, every predictor of the ensemble throws.\<close>

lemma new_ensemble_all_fail:
  "lr_predict (linearRegression new_ensemble) x = Inl ModelError"
  "es_forecast (exponentialSmoothing new_ensemble) steps = Inl ModelError"
  "ar_forecast (autoRegression new_ensemble) history steps = Inl ModelError"
  by (simp_all add: new_ensemble_def lr_predict_def new_linear_regression_def es_forecast_def
      new_exponential_smoothing_def ar_forecast_def new_auto_regression_def)

lemma forecast_untrained:
  "forecast [100, 101] 3 new_ensemble =
     ([Some 101, Some 101, Some 101],
      new_ensemble\<lparr>weight_lr := 49 / 80, weight_es := 31 / 80, weight_ar := 0\<rparr>)"
  by (simp add: forecast_def predict_lr_def predict_es_def predict_ar_def new_ensemble_def
      lr_predict_def new_linear_regression_def es_forecast_def new_exponential_smoothing_def
      ar_forecast_def new_auto_regression_def weight_sum_def normalizeWeights_def combine_def
      Let_def upt_conv_Cons)

subsection \<open>Linear regression on a constant series\<close>

lemma sum_upt_real: "sum_list (map real [0 ..< n]) = real n * (real n - 1) / 2"
  by (induction n) (simp_all add: field_simps)

lemma sum_sq_upt_real:
  "sum_list (map (\<lambda>xi. xi * xi) (map real [0 ..< n])) = (real n - 1) * real n * (2 * real n - 1) / 6"
  by (induction n) (simp_all add: field_simps)

lemma sumXY_const:
  "sum_list (map (\<lambda>(xi, yi). xi * yi) (zip x (replicate (length x) c))) = c * sum_list x"
  for x :: "real list"
  by (induction x) (simp_all add: algebra_simps)

lemma lr_train_flat:
  "lr_train (map real [0 ..< 30]) (replicate 30 100) m =
     Inr \<lparr>lr_alpha = 100, lr_beta = 0, lr_trained = True\<rparr>"
proof -
  have xy: "sum_list (map (\<lambda>(xi, yi). xi * yi) (zip (map real [0 ..< 30]) (replicate 30 100))) =
      100 * sum_list (map real [0 ..< 30])"
    using sumXY_const [of "map real [0 ..< 30]" 100] by simp
  show ?thesis
    unfolding lr_train_def Let_def xy sum_upt_real sum_sq_upt_real
    by (simp add: sum_list_replicate)
qed

subsection \<open>Exponential smoothing on a constant series\<close>

lemma es_initialize_const:
  assumes "0 < n"
  shows "es_initialize (replicate n c) = (c, 0)"
proof -
  have m: "map (\<lambda>i. replicate n c ! i - replicate n c ! (i - 1)) [1 ..< n] = map (\<lambda>i. 0) [1 ..< n]"
    by (rule map_cong) auto
  have "sum_list (map (\<lambda>i. replicate n c ! i - replicate n c ! (i - 1)) [1 ..< n]) = 0"
    unfolding m by simp
  then show ?thesis using assms by (simp add: es_initialize_def)
qed

lemma es_update_const: "es_update a b c (c, 0) = (c, 0)"
  by (simp add: es_update_def Let_def algebra_simps)

lemma es_fold_const: "fold (es_update a b) (replicate n c) (c, 0) = (c, 0)"
  by (induction n) (simp_all add: es_update_const del: fold_replicate)

lemma es_fit_const:
  assumes "2 \<le> n"
  shows "es_fit (replicate n c) m = Inr (m\<lparr>es_level := Some c, es_trend := Some 0\<rparr>)"
proof -
  have i: "es_initialize (replicate n c) = (c, 0)" using assms by (simp add: es_initialize_const)
  have t: "tl (replicate n c) = replicate (n - 1) c" by simp
  show ?thesis
    unfolding es_fit_def t i es_fold_const using assms by simp
qed


subsection \<open>The elimination with a zero right-hand side\<close>

lemma rhs_zero_row: "rhs_zero p aug \<Longrightarrow> i < p \<Longrightarrow> length (aug ! i) = Suc p \<and> aug ! i ! p = 0"
  by (simp add: rhs_zero_def)

lemma rhs_zero_update:
  assumes "rhs_zero p aug" and "length row = Suc p" and "row ! p = 0"
  shows "rhs_zero p (aug[j := row])"
  using assms set_update_subset_insert [of aug j row] by (auto simp: rhs_zero_def)

lemma findMaxRow_fold_less:
  "m < p \<Longrightarrow> \<forall>j \<in> set js. j < p \<Longrightarrow>
     fold (\<lambda>j maxRow. if \<bar>aug ! j ! i\<bar> > \<bar>aug ! maxRow ! i\<bar> then j else maxRow) js m < p"
  by (induction js arbitrary: m) simp_all

lemma findMaxRow_less: "i < p \<Longrightarrow> findMaxRow p aug i < p"
  unfolding findMaxRow_def by (rule findMaxRow_fold_less) simp_all

lemma swapRows_rhs_zero:
  assumes "rhs_zero p aug" and "i < p" and "k < p"
  shows "rhs_zero p (swapRows aug i k)"
  using assms by (simp add: swapRows_def rhs_zero_update rhs_zero_row)

lemma regularizePivot_rhs_zero:
  assumes "rhs_zero p aug" and "i < p"
  shows "rhs_zero p (regularizePivot aug i)"
  using assms by (simp add: regularizePivot_def rhs_zero_update rhs_zero_row)

lemma normalizeRow_fold:
  "length r = Suc p \<Longrightarrow> r ! p = 0 \<Longrightarrow>
     length (fold (\<lambda>j r. r[j := r ! j / r ! i]) js r) = Suc p \<and>
     fold (\<lambda>j r. r[j := r ! j / r ! i]) js r ! p = (0 :: real)"
proof (induction js arbitrary: r)
  case Nil
  then show ?case by simp
next
  case (Cons j js)
  have "length (r[j := r ! j / r ! i]) = Suc p \<and> (r[j := r ! j / r ! i]) ! p = 0"
    using Cons.prems by (cases "j = p") (simp_all add: nth_list_update)
  then show ?case using Cons.IH by simp
qed

lemma normalizeRow_rhs_zero:
  "length r = Suc p \<Longrightarrow> r ! p = 0 \<Longrightarrow>
     length (normalizeRow p i r) = Suc p \<and> normalizeRow p i r ! p = 0"
  unfolding normalizeRow_def by (rule normalizeRow_fold)

lemma eliminateRow_fold:
  "length r = Suc p \<Longrightarrow> r ! p = 0 \<Longrightarrow> pivotRow ! p = 0 \<Longrightarrow>
     length (fold (\<lambda>k r. r[k := r ! k - factor * pivotRow ! k]) ks r) = Suc p \<and>
     fold (\<lambda>k r. r[k := r ! k - factor * pivotRow ! k]) ks r ! p = (0 :: real)"
proof (induction ks arbitrary: r)
  case Nil
  then show ?case by simp
next
  case (Cons k ks)
  have "length (r[k := r ! k - factor * pivotRow ! k]) = Suc p \<and>
      (r[k := r ! k - factor * pivotRow ! k]) ! p = 0"
    using Cons.prems by (cases "k = p") (simp_all add: nth_list_update)
  then show ?case using Cons.IH Cons.prems(3) by simp
qed

lemma eliminateRow_rhs_zero:
  "length r = Suc p \<Longrightarrow> r ! p = 0 \<Longrightarrow> pivotRow ! p = 0 \<Longrightarrow>
     length (eliminateRow p i pivotRow r) = Suc p \<and> eliminateRow p i pivotRow r ! p = 0"
  unfolding eliminateRow_def Let_def by (rule eliminateRow_fold)

lemma eliminateColumn_fold:
  "rhs_zero p a \<Longrightarrow> i < p \<Longrightarrow> \<forall>j \<in> set js. j < p \<Longrightarrow>
     rhs_zero p (fold (\<lambda>j a. if j \<noteq> i then a[j := eliminateRow p i (a ! i) (a ! j)] else a) js a)"
proof (induction js arbitrary: a)
  case Nil
  then show ?case by simp
next
  case (Cons j js)
  have "rhs_zero p (a[j := eliminateRow p i (a ! i) (a ! j)])"
    using Cons.prems eliminateRow_rhs_zero [of "a ! j" p "a ! i" i]
    by (simp add: rhs_zero_update rhs_zero_row)
  then show ?case using Cons by simp
qed

lemma eliminateColumn_rhs_zero:
  "rhs_zero p a \<Longrightarrow> i < p \<Longrightarrow> rhs_zero p (eliminateColumn p i a)"
  unfolding eliminateColumn_def by (rule eliminateColumn_fold) simp_all

lemma gaussStep_rhs_zero:
  assumes "rhs_zero p aug" and "i < p"
  shows "rhs_zero p (gaussStep p i aug)"
proof -
  let ?a1 = "swapRows aug i (findMaxRow p aug i)"
  let ?a2 = "regularizePivot ?a1 i"
  have a2: "rhs_zero p ?a2"
    using assms by (simp add: swapRows_rhs_zero findMaxRow_less regularizePivot_rhs_zero)
  have "rhs_zero p (?a2[i := normalizeRow p i (?a2 ! i)])"
    using a2 assms(2) normalizeRow_rhs_zero [of "?a2 ! i" p i]
    by (simp add: rhs_zero_update rhs_zero_row)
  then show ?thesis
    unfolding gaussStep_def Let_def using assms(2) by (rule eliminateColumn_rhs_zero)
qed

lemma gauss_fold:
  "rhs_zero p aug \<Longrightarrow> \<forall>i \<in> set is. i < p \<Longrightarrow> rhs_zero p (fold (gaussStep p) is aug)"
  by (induction "is" arbitrary: aug) (simp_all add: gaussStep_rhs_zero)

lemma gauss_rhs_zero: "rhs_zero p aug \<Longrightarrow> rhs_zero p (gauss p aug)"
  unfolding gauss_def by (rule gauss_fold) simp_all

lemma solution_zero:
  assumes "rhs_zero p aug"
  shows "map (\<lambda>row. row ! p) aug = replicate p 0"
  using assms by (intro replicate_eqI) (auto simp: rhs_zero_def)

lemma XTy_zero:
  assumes "\<forall>yk \<in> set y. yk = 0"
  shows "XTy p X y = replicate p 0"
proof -
  have "sum_list (map (\<lambda>(row, yk). row ! i * yk) (zip X y)) = 0" for i
  proof -
    have m: "map (\<lambda>(row, yk). row ! i * yk) (zip X y) = map (\<lambda>r. 0) (zip X y)"
      using assms by (intro map_cong) (auto dest: set_zip_rightD)
    show ?thesis unfolding m by simp
  qed
  then show ?thesis by (simp add: XTy_def map_replicate_const)
qed

lemma augmented_rhs_zero:
  "rhs_zero p (map (\<lambda>(row, b). row @ [b]) (zip (XTX p X) (replicate p 0)))"
  by (auto simp: rhs_zero_def XTX_def set_zip nth_append)

lemma ordinaryLeastSquares_zero:
  assumes "X = row0 # rows" and "\<forall>yk \<in> set y. yk = 0"
  shows "ordinaryLeastSquares X y = Inr (replicate (Suc (length row0)) 0)"
proof -
  let ?p = "Suc (length row0)"
  let ?Xw = "map (\<lambda>row. 1 # row) X"
  have "map (\<lambda>row. row ! ?p)
          (gauss ?p (map (\<lambda>(row, b). row @ [b]) (zip (XTX ?p ?Xw) (XTy ?p ?Xw y)))) =
        replicate ?p 0"
    unfolding XTy_zero [OF assms(2)]
    by (intro solution_zero gauss_rhs_zero augmented_rhs_zero)
  then show ?thesis
    using assms(1) by (simp add: ordinaryLeastSquares_def Let_def)
qed


subsection \<open>Autoregression on a constant series\<close>

lemma normalization_of_flat: "normalization_of (replicate 30 100) = (100, 1)"
  by (simp add: normalization_of_def Let_def sum_list_replicate)

lemma createLagMatrix_zero:
  "createLagMatrix 3 (replicate 30 0) = (replicate 27 [0, 0, 0], replicate 27 0)"
proof -
  have lags: "[1 ..< 3 + 1] = [1, 2, 3 :: nat]" by (simp add: upt_conv_Cons)
  have rows: "map (\<lambda>i. map (\<lambda>j. replicate 30 (0 :: real) ! (i - j)) [1 ..< 3 + 1]) [3 ..< 30] =
      replicate 27 [0, 0, 0]"
    unfolding lags by (rule replicate_eqI) auto
  have targets: "map (\<lambda>i. replicate 30 (0 :: real) ! i) [3 ..< 30] = replicate 27 0"
    by (rule replicate_eqI) auto
  show ?thesis
    unfolding createLagMatrix_def length_replicate rows targets by simp
qed

lemma ordinaryLeastSquares_flat:
  "ordinaryLeastSquares (replicate 27 [0, 0, 0]) (replicate 27 0) = Inr [0, 0, 0, 0]"
proof -
  have X: "replicate 27 [0, 0, 0 :: real] = [0, 0, 0] # replicate 26 [0, 0, 0]"
    using replicate_Suc [of 26 "[0, 0, 0 :: real]"] by simp
  have "ordinaryLeastSquares (replicate 27 [0, 0, 0]) (replicate 27 0) =
      Inr (replicate (Suc (length [0, 0, 0 :: real])) 0)"
    by (rule ordinaryLeastSquares_zero [OF X]) simp
  then show ?thesis by (simp add: numeral_3_eq_3)
qed

lemma ar_fit_flat:
  "ar_fit (replicate 30 100) new_auto_regression =
     Inr \<lparr>ar_order = 3, ar_coefficients = [0, 0, 0], ar_intercept = 0,
          ar_normalization = Some (100, 1)\<rparr>"
proof -
  have n: "map (\<lambda>v. (v - 100) / 1) (replicate 30 (100 :: real)) = replicate 30 0" by simp
  show ?thesis
    unfolding ar_fit_def Let_def normalization_of_flat prod.case n
    by (simp add: ar_adjusted_order_def new_auto_regression_def createLagMatrix_zero
        ordinaryLeastSquares_flat)
qed

lemma ar_loop_flat:
  "ar_loop (autoRegression trained_flat) steps [0, 0, 0] = replicate steps 100"
  by (induction steps)
    (simp_all add: trained_flat_def Let_def numeral_3_eq_3)

lemma ar_forecast_flat:
  "ar_forecast (autoRegression trained_flat) (replicate 30 100) steps = Inr (replicate steps 100)"
proof -
  have h: "rev (slice_last 3 (map (\<lambda>v. (v - 100) / 1) (replicate 30 (100 :: real)))) = [0, 0, 0]"
    by (simp add: slice_last_def numeral_3_eq_3)
  have "ar_forecast (autoRegression trained_flat) (replicate 30 100) steps =
      Inr (ar_loop (autoRegression trained_flat) steps [0, 0, 0])"
    using h by (simp add: ar_forecast_def trained_flat_def Let_def)
  then show ?thesis by (simp add: ar_loop_flat)
qed

subsection \<open>The ensemble on a constant series\<close>

lemma lr_predict_flat:
  "lr_predict (linearRegression trained_flat) x = Inr (replicate (length x) 100)"
  by (simp add: lr_predict_def trained_flat_def map_replicate_const)

lemma es_forecast_flat:
  "es_forecast (exponentialSmoothing trained_flat) steps = Inr (replicate steps 100)"
  by (simp add: es_forecast_def trained_flat_def map_replicate_const)

lemma trainAll_flat: "trainAll (replicate 30 100) new_ensemble = Inr trained_flat"
proof -
  have lr: "train_lr (replicate 30 100) new_ensemble =
      new_ensemble\<lparr>linearRegression := \<lparr>lr_alpha = 100, lr_beta = 0, lr_trained = True\<rparr>\<rparr>"
    by (simp add: train_lr_def lr_train_flat)
  have es: "es_fit (replicate 30 100) new_exponential_smoothing =
      Inr (new_exponential_smoothing\<lparr>es_level := Some 100, es_trend := Some 0\<rparr>)"
    by (rule es_fit_const) simp
  have trained: "train_ar (replicate 30 100)
        (train_es (replicate 30 100)
          (new_ensemble\<lparr>linearRegression := \<lparr>lr_alpha = 100, lr_beta = 0, lr_trained = True\<rparr>\<rparr>)) =
      \<lparr>linearRegression = \<lparr>lr_alpha = 100, lr_beta = 0, lr_trained = True\<rparr>,
       exponentialSmoothing = new_exponential_smoothing\<lparr>es_level := Some 100, es_trend := Some 0\<rparr>,
       autoRegression =
         \<lparr>ar_order = 3, ar_coefficients = [0, 0, 0], ar_intercept = 0,
          ar_normalization = Some (100, 1)\<rparr>,
       weight_lr = 3 / 10, weight_es = 3 / 10, weight_ar = 4 / 10\<rparr>"
    by (simp add: train_es_def train_ar_def new_ensemble_def es ar_fit_flat)
  show ?thesis
    unfolding trainAll_def lr trained
    by (simp add: trained_flat_def new_exponential_smoothing_def)
qed

lemma combine_flat:
  assumes "i < steps"
  shows "combine trained_flat (replicate 30 100) (replicate steps 100) (replicate steps 100)
           (replicate steps 100) i = Some 100"
  using assms by (simp add: combine_def trained_flat_def Let_def)

lemma forecast_flat:
  "forecast (replicate 30 100) steps trained_flat = (replicate steps (Some 100), trained_flat)"
proof -
  have lr: "predict_lr (replicate 30 100) steps trained_flat = (replicate steps 100, trained_flat)"
    by (simp add: predict_lr_def Let_def lr_predict_flat)
  have es: "predict_es steps trained_flat = (replicate steps 100, trained_flat)"
    by (simp add: predict_es_def es_forecast_flat)
  have ar: "predict_ar (replicate 30 100) steps trained_flat = (replicate steps 100, trained_flat)"
    by (simp add: predict_ar_def ar_forecast_flat)
  have sum: "weight_sum trained_flat = 1" by (simp add: weight_sum_def trained_flat_def)
  have comb: "map (combine trained_flat (replicate 30 100) (replicate steps 100)
        (replicate steps 100) (replicate steps 100)) [0 ..< steps] = replicate steps (Some 100)"
    by (rule replicate_eqI) (auto simp: combine_flat)
  show ?thesis
    unfolding forecast_def lr es ar Let_def prod.case
    by (simp add: sum normalizeWeights_def comb)
qed

text \<open>With a history shorter than its order, the trained autoregression throws.\<close>

lemma forecast_short_history:
  "forecast [100, 101] 3 trained_flat =
     ([Some 100, Some 100, Some 100],
      trained_flat\<lparr>weight_lr := 1 / 2, weight_es := 1 / 2, weight_ar := 0\<rparr>)"
  by (simp add: forecast_def predict_lr_def predict_es_def predict_ar_def trained_flat_def
      lr_predict_def es_forecast_def ar_forecast_def weight_sum_def normalizeWeights_def
      combine_def Let_def upt_conv_Cons)

subsection \<open>The claims on the ensemble\<close>

text \<open>
  C2. In every run of the ensemble the three weights sum to 1 after the weights of the
  predictors that failed have been redistributed. Every \<open>catch\<close> block of \<open>trainAll\<close> and of
  \<open>forecast\<close> moves the weight of its predictor in two halves to the other two, so from
  any state whose weights sum to 1, such as that of the constructor, the sum is 1 after the
  training, after a forecast, and after a forecast that follows the training, whichever
  predictors fail, all three included. Numbers are reals.
\<close>

theorem ensemble_weights_sum_to_one:
  assumes "weight_sum e = 1"
  shows "weight_sum (train_lr data e) = 1 \<and> weight_sum (train_es data e) = 1 \<and>
         weight_sum (train_ar data e) = 1 \<and>
         weight_sum (snd (forecast history steps e)) = 1 \<and>
         (\<forall>e1. trainAll data e = Inr e1 \<longrightarrow>
            weight_sum e1 = 1 \<and> weight_sum (snd (forecast history steps e1)) = 1)"
proof -
  have "weight_sum e1 = 1" if "trainAll data e = Inr e1" for e1
    using that assms by (simp add: trainAll_weights)
  then show ?thesis
    using assms by (simp add: train_lr_weights train_es_weights train_ar_weights forecast_weights)
qed

text \<open>
  The ensemble of the constructor: the training on thirty prices of 100 succeeds; in a
  forecast from two prices the untrained ensemble loses all three predictors and the
  trained one its autoregression, and the weights sum to 1 in both.
\<close>

theorem ensemble_weights_sum_to_one_witness:
  "weight_sum new_ensemble = 1 \<and>
   trainAll (replicate 30 100) new_ensemble = Inr trained_flat \<and>
   weight_sum trained_flat = 1 \<and>
   forecast [100, 101] 3 new_ensemble =
     ([Some 101, Some 101, Some 101],
      new_ensemble\<lparr>weight_lr := 49 / 80, weight_es := 31 / 80, weight_ar := 0\<rparr>) \<and>
   weight_sum (snd (forecast [100, 101] 3 new_ensemble)) = 1 \<and>
   forecast [100, 101] 3 trained_flat =
     ([Some 100, Some 100, Some 100],
      trained_flat\<lparr>weight_lr := 1 / 2, weight_es := 1 / 2, weight_ar := 0\<rparr>) \<and>
   weight_sum (snd (forecast [100, 101] 3 trained_flat)) = 1"
  using ensemble_weights_sum_to_one
    [OF new_ensemble_weights, of "replicate 30 100" "[100, 101]" 3]
    new_ensemble_weights trainAll_flat forecast_untrained forecast_short_history
  by simp

text \<open>
  C6. For the history of thirty prices of 100 the trained ensemble forecasts 100 at every
  step, whatever the horizon: the linear regression has intercept 100 and slope 0, the
  exponential smoothing ends with level 100 and trend 0, the autoregression, fitted on the
  normalized series of zeros, predicts 100 after the denormalization, and the weighted
  combination is the flat line at 100. Numbers are reals.
\<close>

theorem forecast_flat_history:
  "trainAll (replicate 30 100) new_ensemble = Inr trained_flat \<and>
   lr_alpha (linearRegression trained_flat) = 100 \<and>
   lr_beta (linearRegression trained_flat) = 0 \<and>
   es_level (exponentialSmoothing trained_flat) = Some 100 \<and>
   es_trend (exponentialSmoothing trained_flat) = Some 0 \<and>
   lr_predict (linearRegression trained_flat) (map (\<lambda>i. 30 - 1 + real i + 1) [0 ..< steps]) =
     Inr (replicate steps 100) \<and>
   es_forecast (exponentialSmoothing trained_flat) steps = Inr (replicate steps 100) \<and>
   ar_forecast (autoRegression trained_flat) (replicate 30 100) steps = Inr (replicate steps 100) \<and>
   forecast (replicate 30 100) steps trained_flat = (replicate steps (Some 100), trained_flat)"
proof -
  have "lr_predict (linearRegression trained_flat) (map (\<lambda>i. 30 - 1 + real i + 1) [0 ..< steps]) =
      Inr (replicate steps 100)"
    using lr_predict_flat [of "map (\<lambda>i. 30 - 1 + real i + 1) [0 ..< steps]"] by simp
  then show ?thesis
    using trainAll_flat es_forecast_flat ar_forecast_flat forecast_flat
    by (simp add: trained_flat_def)
qed

end
